theory Spec2Isabelle
  imports Main "HOL-Library.Word"
begin

unbundle bit_operations_syntax

section \<open>POSIX wrapper for FatFS (posix.c): error codes\<close>

text \<open>
  The POSIX error numbers. The macros are defined in posix.h; posix.c fixes their values
  through \<^verbatim>\<open>sys_errlist\<close>, which is indexed by \<^verbatim>\<open>errno\<close>: each code below
  is the index of its message in that table (\<^verbatim>\<open>perror\<close> reads
  \<^verbatim>\<open>sys_errlist[EBADMSG]\<close> for the last entry, "Bad Message").
\<close>

definition EPERM :: int where "EPERM = 1"     \<comment> \<open>Operation not permitted\<close>
definition ENOENT :: int where "ENOENT = 2"   \<comment> \<open>No such file or directory\<close>
definition EIO :: int where "EIO = 5"         \<comment> \<open>I/O error\<close>
definition ENXIO :: int where "ENXIO = 6"     \<comment> \<open>No such device or address\<close>
definition EBADF :: int where "EBADF = 9"     \<comment> \<open>Bad file number\<close>
definition ENOMEM :: int where "ENOMEM = 12"  \<comment> \<open>Out of memory\<close>
definition EACCES :: int where "EACCES = 13"  \<comment> \<open>Permission denied\<close>
definition EBUSY :: int where "EBUSY = 16"    \<comment> \<open>Device or resource busy\<close>
definition EINVAL :: int where "EINVAL = 22"  \<comment> \<open>Invalid argument\<close>
definition ENFILE :: int where "ENFILE = 23"  \<comment> \<open>File table overflow\<close>
definition EMFILE :: int where "EMFILE = 24"  \<comment> \<open>Too many open files\<close>
definition ENOSPC :: int where "ENOSPC = 28"  \<comment> \<open>No space left on device\<close>
definition EROFS :: int where "EROFS = 30"    \<comment> \<open>Read-only file system\<close>
definition EBADMSG :: int where "EBADMSG = 35" \<comment> \<open>Bad Message\<close>

text \<open>
  The message table \<^verbatim>\<open>sys_errlist\<close> of posix.c (without its closing NULL).
\<close>

definition sys_errlist :: "string list" where
  "sys_errlist =
    [''OK'', ''Operation not permitted'', ''No such file or directory'', ''No such process'',
     ''Interrupted system call'', ''I/O error'', ''No such device or address'',
     ''Argument list too long'', ''Exec format error'', ''Bad file number'',
     ''No child processes'', ''Try again'', ''Out of memory'', ''Permission denied'',
     ''Bad address'', ''Block device required'', ''Device or resource busy'', ''File exists'',
     ''Cross-device link'', ''No such device'', ''Not a directory'', ''Is a directory'',
     ''Invalid argument'', ''File table overflow'', ''Too many open files'',
     ''Not a typewriter'', ''Text file busy'', ''File too large'', ''No space left on device'',
     ''Illegal seek'', ''Read-only file system'', ''Too many links'', ''Broken pipe'',
     ''Math argument out of domain of func'', ''Math result not representable'',
     ''Bad Message'']"

text \<open>
  The result codes of the FatFs engine. \<^verbatim>\<open>FRESULT\<close> is an enum of ff.h; a C enum is an
  integer, and a value outside the enumerators can reach \<^verbatim>\<open>fatfs_to_errno\<close>
  (\<^verbatim>\<open>open\<close> passes an \<^verbatim>\<open>int\<close>), so the type is \<open>int\<close>. The numbers are the ones
  posix.c gives beside each case of \<^verbatim>\<open>fatfs_to_errno\<close>.
\<close>

type_synonym FRESULT = int

definition FR_OK :: FRESULT where "FR_OK = 0"
definition FR_DISK_ERR :: FRESULT where "FR_DISK_ERR = 1"
definition FR_INT_ERR :: FRESULT where "FR_INT_ERR = 2"
definition FR_NOT_READY :: FRESULT where "FR_NOT_READY = 3"
definition FR_NO_FILE :: FRESULT where "FR_NO_FILE = 4"
definition FR_NO_PATH :: FRESULT where "FR_NO_PATH = 5"
definition FR_INVALID_NAME :: FRESULT where "FR_INVALID_NAME = 6"
definition FR_DENIED :: FRESULT where "FR_DENIED = 7"
definition FR_EXIST :: FRESULT where "FR_EXIST = 8"
definition FR_INVALID_OBJECT :: FRESULT where "FR_INVALID_OBJECT = 9"
definition FR_WRITE_PROTECTED :: FRESULT where "FR_WRITE_PROTECTED = 10"
definition FR_INVALID_DRIVE :: FRESULT where "FR_INVALID_DRIVE = 11"
definition FR_NOT_ENABLED :: FRESULT where "FR_NOT_ENABLED = 12"
definition FR_NO_FILESYSTEM :: FRESULT where "FR_NO_FILESYSTEM = 13"
definition FR_MKFS_ABORTED :: FRESULT where "FR_MKFS_ABORTED = 14"
definition FR_TIMEOUT :: FRESULT where "FR_TIMEOUT = 15"
definition FR_LOCKED :: FRESULT where "FR_LOCKED = 16"
definition FR_NOT_ENOUGH_CORE :: FRESULT where "FR_NOT_ENOUGH_CORE = 17"
definition FR_TOO_MANY_OPEN_FILES :: FRESULT where "FR_TOO_MANY_OPEN_FILES = 18"
definition FR_INVALID_PARAMETER :: FRESULT where "FR_INVALID_PARAMETER = 19"

text \<open>
  \<^verbatim>\<open>fatfs_to_errno\<close>: the switch, case by case in the order of the source, and the
  \<^verbatim>\<open>return (EBADMSG)\<close> after it.
\<close>

definition fatfs_to_errno :: "FRESULT \<Rightarrow> int" where
  "fatfs_to_errno Result =
    (if Result = FR_OK then 0
     else if Result = FR_DISK_ERR then EIO
     else if Result = FR_INT_ERR then EPERM
     else if Result = FR_NOT_READY then EBUSY
     else if Result = FR_NO_FILE then ENOENT
     else if Result = FR_NO_PATH then ENOENT
     else if Result = FR_INVALID_NAME then EINVAL
     else if Result = FR_DENIED then EACCES
     else if Result = FR_EXIST then EACCES
     else if Result = FR_INVALID_OBJECT then EINVAL
     else if Result = FR_WRITE_PROTECTED then EROFS
     else if Result = FR_INVALID_DRIVE then ENXIO
     else if Result = FR_NOT_ENABLED then ENOSPC
     else if Result = FR_NO_FILESYSTEM then ENXIO
     else if Result = FR_MKFS_ABORTED then EINVAL
     else if Result = FR_TIMEOUT then EBUSY
     else if Result = FR_LOCKED then EBUSY
     else if Result = FR_NOT_ENOUGH_CORE then ENOMEM
     else if Result = FR_TOO_MANY_OPEN_FILES then EMFILE
     else if Result = FR_INVALID_PARAMETER then EINVAL
     else EBADMSG)"

section \<open>Constants of the missing headers\<close>

text \<open>
  posix.h and ff.h are not among the files modelled here. The values of the open flags, of
  the FatFs access modes and of the seek origins are parameters of the model: every
  function that uses one takes the record \<open>K\<close> below. \<^verbatim>\<open>MAX_FILES\<close> is the length of the
  table \<^verbatim>\<open>__iob\<close>.
\<close>

record header =
  O_ACCMODE :: int
  O_RDONLY :: int
  O_WRONLY :: int
  O_RDWR :: int
  O_CREAT :: int
  O_TRUNC :: int
  O_APPEND :: int
  FA_READ :: int
  FA_WRITE :: int
  FA_CREATE_ALWAYS :: int
  FA_OPEN_ALWAYS :: int
  SEEK_CUR :: int
  SEEK_END :: int

text \<open>
  The values these constants have in the Linux headers and in FatFs R0.12, for running the
  model on concrete inputs.
\<close>

definition K0 :: header where
  "K0 = \<lparr>O_ACCMODE = 3, O_RDONLY = 0, O_WRONLY = 1, O_RDWR = 2, O_CREAT = 64, O_TRUNC = 512,
          O_APPEND = 1024, FA_READ = 1, FA_WRITE = 2, FA_CREATE_ALWAYS = 8,
          FA_OPEN_ALWAYS = 16, SEEK_CUR = 1, SEEK_END = 2\<rparr>"

text \<open>
  Modelled from the spec: the end-of-file sentinel \<^verbatim>\<open>EOF\<close> and the two failure results
  \<^verbatim>\<open>_FDEV_ERR\<close>, \<^verbatim>\<open>_FDEV_EOF\<close> of a byte-get operation are macros of posix.h. The byte-get
  contract is "byte, end-of-file or error", with a negative result for the last two;
  \<^verbatim>\<open>fgetc\<close> tests \<^verbatim>\<open>c < 0\<close> and \<^verbatim>\<open>c == _FDEV_ERR\<close>. The values are those of the C library
  that posix.c names as its reference (avr-libc stdio).
\<close>

definition EOF :: int where "EOF = - 1"
definition FDEV_ERR :: int where "FDEV_ERR = - 1"
definition FDEV_EOF :: int where "FDEV_EOF = - 2"

section \<open>Mode strings\<close>

text \<open>
  Modelled from the spec: \<^verbatim>\<open>modecmp\<close> is a macro of posix.h. Each mode string is matched
  explicitly against its canonical form: the comparison is string equality.
\<close>

definition modecmp :: "string \<Rightarrow> string \<Rightarrow> bool" where
  "modecmp str pat = (str = pat)"

text \<open>
  \<^verbatim>\<open>posix_fopen_modes_to_open\<close>. The local \<^verbatim>\<open>flag\<close> is kept, so that the last test shows
  what the source computes and what it returns.
\<close>

definition posix_fopen_modes_to_open :: "header \<Rightarrow> string \<Rightarrow> int" where
  "posix_fopen_modes_to_open K mode =
    (if modecmp mode ''r'' \<or> modecmp mode ''rb'' then
       (let flag = O_RDONLY K in flag)
     else if modecmp mode ''r+'' \<or> modecmp mode ''r+b'' \<or> modecmp mode ''rb+'' then
       (let flag = O_RDWR K OR O_TRUNC K in flag)
     else if modecmp mode ''w'' \<or> modecmp mode ''wb'' then
       (let flag = O_WRONLY K OR O_CREAT K OR O_TRUNC K in flag)
     else if modecmp mode ''w+'' \<or> modecmp mode ''w+b'' \<or> modecmp mode ''wb+'' then
       (let flag = O_RDWR K OR O_CREAT K OR O_TRUNC K in flag)
     else if modecmp mode ''a'' \<or> modecmp mode ''ab'' then
       (let flag = O_WRONLY K OR O_CREAT K OR O_APPEND K in flag)
     else if modecmp mode ''a+'' \<or> modecmp mode ''a+b'' \<or> modecmp mode ''ab+'' then
       (let flag = O_RDWR K OR O_CREAT K OR O_APPEND K in - 1)
     else - 1)"

section \<open>Data model\<close>

type_synonym byte = "8 word"
type_synonym addr = nat

text \<open>
  \<^verbatim>\<open>FIL\<close>, the engine's open-file object (ff.h). posix.c reads two of its fields:
  \<^verbatim>\<open>fh->fptr\<close> (also through the macro \<^verbatim>\<open>f_tell\<close>) and the file size (through the macro
  \<^verbatim>\<open>f_size\<close>). File offsets (\<^verbatim>\<open>off_t\<close>, \<^verbatim>\<open>FSIZE_t\<close>) are 32 bits wide on the target:
  words, whose sum wraps around and whose comparison is that of the bit patterns, as in C
  for both signed and unsigned 32-bit operands. The rest of the object belongs to the
  engine and is the opaque field \<open>obj\<close>.
\<close>

record FIL =
  fptr :: "32 word"
  objsize :: "32 word"
  obj :: nat

definition f_tell :: "FIL \<Rightarrow> 32 word" where
  "f_tell fh = fptr fh"

definition f_size :: "FIL \<Rightarrow> 32 word" where
  "f_size fh = objsize fh"

text \<open>
  The stream flags. In the source \<^verbatim>\<open>flags\<close> is a bit mask and \<^verbatim>\<open>__SRD\<close>, ... are masks of
  posix.h, one bit each; the model keeps the set of the flags that are set, so
  \<^verbatim>\<open>flags |= F\<close> is \<open>insert F\<close>, \<^verbatim>\<open>flags &= ~F\<close> is \<open>- {F}\<close> and
  \<^verbatim>\<open>(flags & F) != 0\<close> is \<open>F \<in> flags\<close>.
\<close>

datatype sflag = SRD | SWR | SSTR | SPGM | SERR | SEOF | SUNGET | SMALLOC

text \<open>
  The byte-get and byte-put operations a stream can be bound to: the FatFs bridge's own
  (\<^verbatim>\<open>fatfs_getc\<close>, \<^verbatim>\<open>fatfs_putc\<close>) or the transport of a device registered with
  \<^verbatim>\<open>fdevopen\<close>. \<open>None\<close> is the NULL function pointer.
\<close>

datatype getfn = Get_fatfs | Get_dev
datatype putfn = Put_fatfs | Put_dev

text \<open>
  \<^verbatim>\<open>FILE\<close> (struct \<^verbatim>\<open>__file\<close> of posix.h), with the fields posix.c uses. \<open>buf\<close> points
  into a character buffer: the block and the offset in it. \<open>unget\<close> is the one-byte
  pushback slot (an \<^verbatim>\<open>unsigned char\<close>: storing an \<^verbatim>\<open>int\<close> keeps its low eight bits).
  \<open>udata\<close> is the address of the bound \<^verbatim>\<open>FIL\<close> (\<^verbatim>\<open>fdev_get_udata\<close>,
  \<^verbatim>\<open>fdev_set_udata\<close>). \<open>None\<close> is NULL. \<open>len\<close> and \<open>size_f\<close> are C \<^verbatim>\<open>int\<close>s, taken
  without a bound: the code only adds and subtracts one.
\<close>

record FILE =
  buf :: "(addr \<times> nat) option"
  unget :: byte
  flags :: "sflag set"
  size_f :: int
  len :: int
  put :: "putfn option"
  get :: "getfn option"
  udata :: "addr option"

text \<open>What \<^verbatim>\<open>safecalloc\<close> returns: zeroed memory.\<close>

definition zero_FILE :: FILE where
  "zero_FILE = \<lparr>buf = None, unget = 0, flags = {}, size_f = 0, len = 0, put = None,
                 get = None, udata = None\<rparr>"

definition zero_FIL :: FIL where
  "zero_FIL = \<lparr>fptr = 0, objsize = 0, obj = 0\<rparr>"

text \<open>
  The process-wide state. \<open>iob\<close> is the table \<^verbatim>\<open>FILE *__iob[MAX_FILES]\<close>: a slot holds the
  address of a stream or NULL, and two slots may hold the same address (\<^verbatim>\<open>fdevopen\<close>
  gives one device to \<^verbatim>\<open>stdout\<close> and \<^verbatim>\<open>stderr\<close>). The streams, the engine objects and
  the character buffers live in three typed memories, read through their addresses; the
  sets \<open>live_*\<close> hold the addresses that are allocated and not yet freed. \<open>mem\<close> is
  what the allocator will answer to the coming calls of \<^verbatim>\<open>safecalloc\<close>, in order (NULL when
  it is out of memory, and when the list is used up). \<open>world\<close> is everything outside
  this layer: the disk behind the engine, the console.
\<close>

record 'w posix =
  iob :: "addr option list"
  files :: "addr \<Rightarrow> FILE"
  fils :: "addr \<Rightarrow> FIL"
  bufs :: "addr \<Rightarrow> nat \<Rightarrow> byte"
  live_files :: "addr set"
  live_fils :: "addr set"
  live_bufs :: "addr set"
  mem :: "addr option list"
  errno :: int
  world :: "'w"

text \<open>
  The collaborators below this layer, as parameters: the engine's calls on an open-file
  object (each returns its result code, the object as the call leaves it and the world as
  the call leaves it; \<^verbatim>\<open>f_read\<close> also returns the bytes it stored in the caller's buffer,
  whose number is the count it reports), and the byte-get transport of the console.
\<close>

record 'w engine =
  f_open :: "'w \<Rightarrow> FIL \<Rightarrow> string \<Rightarrow> byte \<Rightarrow> FRESULT \<times> 'w \<times> FIL"
  f_close :: "'w \<Rightarrow> FIL \<Rightarrow> FRESULT \<times> 'w \<times> FIL"
  f_read :: "'w \<Rightarrow> FIL \<Rightarrow> nat \<Rightarrow> FRESULT \<times> byte list \<times> 'w \<times> FIL"
  f_lseek :: "'w \<Rightarrow> FIL \<Rightarrow> 32 word \<Rightarrow> FRESULT \<times> 'w \<times> FIL"
  dev_get :: "'w \<Rightarrow> int \<times> 'w"

definition MAX_FILES :: "'w posix \<Rightarrow> int" where
  "MAX_FILES s = int (length (iob s))"

text \<open>
  \<^verbatim>\<open>stdin\<close>, \<^verbatim>\<open>stdout\<close>, \<^verbatim>\<open>stderr\<close> are the first three slots of the table.
\<close>

definition slot :: "'w posix \<Rightarrow> nat \<Rightarrow> addr option" where
  "slot s i = (if i < length (iob s) then iob s ! i else None)"

definition stdin :: "'w posix \<Rightarrow> addr option" where "stdin s = slot s 0"
definition stdout :: "'w posix \<Rightarrow> addr option" where "stdout s = slot s 1"
definition stderr :: "'w posix \<Rightarrow> addr option" where "stderr s = slot s 2"

section \<open>Memory\<close>

text \<open>
  Modelled from the spec: \<^verbatim>\<open>safecalloc\<close> and \<^verbatim>\<open>safefree\<close> belong to the support library.
  An allocation either fails (NULL) or yields a zeroed object that is then in use; a free
  ends the use of the object.
\<close>

definition safecalloc_FILE :: "'w posix \<Rightarrow> addr option \<times> 'w posix" where
  "safecalloc_FILE s =
    (case mem s of
       [] \<Rightarrow> (None, s)
     | None # rest \<Rightarrow> (None, s\<lparr>mem := rest\<rparr>)
     | Some a # rest \<Rightarrow>
         (Some a, s\<lparr>mem := rest, files := (files s)(a := zero_FILE),
                     live_files := insert a (live_files s)\<rparr>))"

definition safecalloc_FIL :: "'w posix \<Rightarrow> addr option \<times> 'w posix" where
  "safecalloc_FIL s =
    (case mem s of
       [] \<Rightarrow> (None, s)
     | None # rest \<Rightarrow> (None, s\<lparr>mem := rest\<rparr>)
     | Some a # rest \<Rightarrow>
         (Some a, s\<lparr>mem := rest, fils := (fils s)(a := zero_FIL),
                     live_fils := insert a (live_fils s)\<rparr>))"

definition safefree_FILE :: "addr \<Rightarrow> 'w posix \<Rightarrow> 'w posix" where
  "safefree_FILE a s = s\<lparr>live_files := live_files s - {a}\<rparr>"

definition safefree_FIL :: "addr \<Rightarrow> 'w posix \<Rightarrow> 'w posix" where
  "safefree_FIL a s = s\<lparr>live_fils := live_fils s - {a}\<rparr>"

definition safefree_buf :: "addr \<times> nat \<Rightarrow> 'w posix \<Rightarrow> 'w posix" where
  "safefree_buf p s = s\<lparr>live_bufs := live_bufs s - {fst p}\<rparr>"

section \<open>Descriptor table\<close>

text \<open>\<^verbatim>\<open>isatty\<close>: the three console handles.\<close>

definition isatty :: "int \<Rightarrow> bool" where
  "isatty fd = (fd \<ge> 0 \<and> fd \<le> 2)"

text \<open>
  \<^verbatim>\<open>fileno\<close>: the index of the first slot that holds the stream's address; the loop
  \<^verbatim>\<open>for(fileno=0; fileno<MAX_FILES; ++fileno)\<close> runs over the table from \<open>i\<close> on.
\<close>

fun fileno_loop :: "addr option list \<Rightarrow> addr \<Rightarrow> int \<Rightarrow> int" where
  "fileno_loop [] stream i = - 1"
| "fileno_loop (x # xs) stream i = (if x = Some stream then i else fileno_loop xs stream (i + 1))"

definition fileno :: "addr option \<Rightarrow> 'w posix \<Rightarrow> int \<times> 'w posix" where
  "fileno stream s =
    (case stream of
       None \<Rightarrow> (- 1, s\<lparr>errno := EBADF\<rparr>)
     | Some a \<Rightarrow> (fileno_loop (iob s) a 0, s))"

text \<open>\<^verbatim>\<open>fileno_to_stream\<close>: the bounds check, then the slot.\<close>

definition fileno_to_stream :: "int \<Rightarrow> 'w posix \<Rightarrow> addr option \<times> 'w posix" where
  "fileno_to_stream fd s =
    (if fd < 0 \<or> fd \<ge> MAX_FILES s then (None, s\<lparr>errno := EBADF\<rparr>)
     else (case iob s ! nat fd of
             None \<Rightarrow> (None, s\<lparr>errno := EBADF\<rparr>)
           | Some stream \<Rightarrow> (Some stream, s)))"

text \<open>\<^verbatim>\<open>fileno_to_fatfs\<close>: the engine object bound to a handle, NULL for a console handle.\<close>

definition fileno_to_fatfs :: "int \<Rightarrow> 'w posix \<Rightarrow> addr option \<times> 'w posix" where
  "fileno_to_fatfs fd s =
    (if isatty fd then (None, s\<lparr>errno := EBADF\<rparr>)
     else (case fileno_to_stream fd s of
             (None, s1) \<Rightarrow> (None, s1)
           | (Some stream, s1) \<Rightarrow>
               (case udata (files s1 stream) of
                  None \<Rightarrow> (None, s1\<lparr>errno := EBADF\<rparr>)
                | Some fh \<Rightarrow> (Some fh, s1))))"

text \<open>
  \<^verbatim>\<open>free_file_descriptor\<close>: frees the engine object if there is one, the buffer if the
  stream owns one, clears the slot and frees the stream.
\<close>

definition free_file_descriptor :: "int \<Rightarrow> 'w posix \<Rightarrow> int \<times> 'w posix" where
  "free_file_descriptor fd s =
    (if isatty fd then (- 1, s\<lparr>errno := EBADF\<rparr>)
     else (case fileno_to_stream fd s of
             (None, s1) \<Rightarrow> (- 1, s1)
           | (Some stream, s1) \<Rightarrow>
               (let s2 = (case udata (files s1 stream) of
                            None \<Rightarrow> s1
                          | Some fh \<Rightarrow> safefree_FIL fh s1);
                    s3 = (case buf (files s2 stream) of
                            None \<Rightarrow> s2
                          | Some b \<Rightarrow>
                              if SMALLOC \<in> flags (files s2 stream) then safefree_buf b s2
                              else s2);
                    s4 = s3\<lparr>iob := (iob s3)[nat fd := None]\<rparr>
                in (fd, safefree_FILE stream s4))))"

text \<open>
  \<^verbatim>\<open>new_file_descriptor\<close>. \<open>new_fd_at\<close> is the body of the test
  \<^verbatim>\<open>if( __iob[i] == NULL)\<close>: the two allocations, and the binding of the slot when both
  succeed. The loop \<^verbatim>\<open>for(i=0;i<MAX_FILES;++i)\<close> is the recursion over the indices still
  to visit; the first free slot that is not a console slot ends it, with a handle or with
  \<^verbatim>\<open>ENOMEM\<close>.
\<close>

definition new_fd_at :: "nat \<Rightarrow> 'w posix \<Rightarrow> int \<times> 'w posix" where
  "new_fd_at i s =
    (case safecalloc_FILE s of
       (None, s1) \<Rightarrow> (- 1, s1\<lparr>errno := ENOMEM\<rparr>)
     | (Some stream, s1) \<Rightarrow>
         (case safecalloc_FIL s1 of
            (None, s2) \<Rightarrow> (- 1, (safefree_FILE stream s2)\<lparr>errno := ENOMEM\<rparr>)
          | (Some fh, s2) \<Rightarrow>
              (int i,
               s2\<lparr>iob := (iob s2)[i := Some stream],
                  files := (files s2)(stream := (files s2 stream)\<lparr>udata := Some fh\<rparr>)\<rparr>)))"

fun new_fd_loop :: "nat list \<Rightarrow> 'w posix \<Rightarrow> int \<times> 'w posix" where
  "new_fd_loop [] s = (- 1, s\<lparr>errno := ENFILE\<rparr>)"
| "new_fd_loop (i # rest) s =
    (if isatty (int i) then new_fd_loop rest s
     else if iob s ! i = None then new_fd_at i s
     else new_fd_loop rest s)"

definition new_file_descriptor :: "'w posix \<Rightarrow> int \<times> 'w posix" where
  "new_file_descriptor s = new_fd_loop [0..<length (iob s)] s"

section \<open>Byte streams\<close>

definition upd_stream :: "addr \<Rightarrow> (FILE \<Rightarrow> FILE) \<Rightarrow> 'w posix \<Rightarrow> 'w posix" where
  "upd_stream a f s = s\<lparr>files := (files s)(a := f (files s a))\<rparr>"

text \<open>
  \<^verbatim>\<open>fatfs_getc\<close>: one byte from the engine, with the line-end detection. \<open>0x0D\<close> is
  \<^verbatim>\<open>'\r'\<close> and \<open>0x0A\<close> is \<^verbatim>\<open>'\n'\<close>. A read that the engine fails, or that does not
  deliver exactly one byte, ends the call.
\<close>

definition fatfs_getc :: "'w engine \<Rightarrow> addr option \<Rightarrow> 'w posix \<Rightarrow> int \<times> 'w posix" where
  "fatfs_getc E stream s0 =
    (let s = s0\<lparr>errno := 0\<rparr> in
     case stream of
       None \<Rightarrow> (EOF, s\<lparr>errno := EBADF\<rparr>)
     | Some a \<Rightarrow>
        (case udata (files s a) of
           None \<Rightarrow> (EOF, s\<lparr>errno := EBADF\<rparr>)
         | Some fh \<Rightarrow>
            (case f_read E (world s) (fils s fh) 1 of
               (res, data, w1, fil1) \<Rightarrow>
                 (let s1 = s\<lparr>world := w1, fils := (fils s)(fh := fil1)\<rparr> in
                  if res \<noteq> FR_OK \<or> length data \<noteq> 1 then
                    (EOF, upd_stream a (\<lambda>f. f\<lparr>flags := insert SEOF (flags f)\<rparr>)
                            (s1\<lparr>errno := fatfs_to_errno res\<rparr>))
                  else if hd data = 0x0D then
                    (let pos = f_tell fil1 in
                     case f_read E w1 fil1 1 of
                       (res2, data2, w2, fil2) \<Rightarrow>
                         (let s2 = s1\<lparr>world := w2, fils := (fils s1)(fh := fil2)\<rparr> in
                          if res2 \<noteq> FR_OK \<or> length data2 \<noteq> 1 then (0x0A, s2)
                          else if hd data2 \<noteq> 0x0A then
                            (case f_lseek E w2 fil2 pos of
                               (res3, w3, fil3) \<Rightarrow>
                                 (0x0A, s2\<lparr>world := w3, fils := (fils s2)(fh := fil3)\<rparr>))
                          else (0x0A, s2)))
                  else (uint (hd data) AND 0xff, s1)))))"

text \<open>The call \<^verbatim>\<open>stream->get(stream)\<close> through the function pointer.\<close>

definition call_get :: "'w engine \<Rightarrow> getfn \<Rightarrow> addr \<Rightarrow> 'w posix \<Rightarrow> int \<times> 'w posix" where
  "call_get E g a s =
    (case g of
       Get_fatfs \<Rightarrow> fatfs_getc E (Some a) s
     | Get_dev \<Rightarrow> (case dev_get E (world s) of (c, w1) \<Rightarrow> (c, s\<lparr>world := w1\<rparr>)))"

text \<open>
  \<^verbatim>\<open>fgetc\<close>. The result is \<open>None\<close> where the source dereferences a NULL pointer (a string
  stream without a buffer). A character of a string stream is read as an unsigned byte
  (plain \<^verbatim>\<open>char\<close> is unsigned on the target). The message printed when \<^verbatim>\<open>stream->get\<close>
  is NULL is console output and is left out; so are the calls that yield to the scheduler
  and reset the watchdog.
\<close>

definition fgetc :: "'w engine \<Rightarrow> addr option \<Rightarrow> 'w posix \<Rightarrow> (int \<times> 'w posix) option" where
  "fgetc E stream s =
    (case stream of
       None \<Rightarrow> Some (EOF, s\<lparr>errno := EBADF\<rparr>)
     | Some a \<Rightarrow>
        if SRD \<notin> flags (files s a) then Some (EOF, s)
        else if SUNGET \<in> flags (files s a) then
          Some (uint (unget (files s a)),
                upd_stream a (\<lambda>f. f\<lparr>flags := flags f - {SUNGET}, len := len f + 1\<rparr>) s)
        else if SSTR \<in> flags (files s a) then
          (case buf (files s a) of
             None \<Rightarrow> None
           | Some (b, off) \<Rightarrow>
               (let c = bufs s b off in
                if c = 0 then
                  Some (EOF, upd_stream a (\<lambda>f. f\<lparr>flags := insert SEOF (flags f)\<rparr>) s)
                else
                  Some (uint c,
                        upd_stream a (\<lambda>f. f\<lparr>buf := Some (b, off + 1), len := len f + 1\<rparr>) s)))
        else
          (case get (files s a) of
             None \<Rightarrow> Some (EOF, s)
           | Some g \<Rightarrow>
               (case call_get E g a s of
                  (c, s1) \<Rightarrow>
                    if c < 0 then
                      Some (EOF,
                            upd_stream a
                              (\<lambda>f. f\<lparr>flags := insert (if c = FDEV_ERR then SERR else SEOF)
                                                    (flags f)\<rparr>) s1)
                    else Some (c, upd_stream a (\<lambda>f. f\<lparr>len := len f + 1\<rparr>) s1))))"

text \<open>
  \<^verbatim>\<open>ungetc\<close>. The first test sends back every stream that is not one of the three console
  handles. After it the stream is not NULL (\<^verbatim>\<open>fileno\<close> of NULL is \<open>-1\<close>), so the
  \<open>None\<close> case of the dereference cannot be reached.
\<close>

definition ungetc :: "int \<Rightarrow> addr option \<Rightarrow> 'w posix \<Rightarrow> int \<times> 'w posix" where
  "ungetc c stream s =
    (case fileno stream s of
       (fd, s1) \<Rightarrow>
         if \<not> isatty fd then (EOF, s1)
         else if c = EOF then (EOF, s1)
         else (case stream of
                 None \<Rightarrow> (EOF, s1)
               | Some a \<Rightarrow>
                   if SUNGET \<in> flags (files s1 a) then (EOF, s1)
                   else if SRD \<notin> flags (files s1 a) then (EOF, s1)
                   else
                     (c, upd_stream a
                           (\<lambda>f. f\<lparr>flags := insert SUNGET (flags f) - {SEOF},
                                   unget := word_of_int c, len := len f - 1\<rparr>) s1)))"

section \<open>Filesystem bridge\<close>

text \<open>
  \<^verbatim>\<open>lseek\<close>. \<^verbatim>\<open>off_t\<close> is a 32-bit word, so the failure result \<open>-1\<close> is the word
  \<open>0xFFFFFFFF\<close>. After \<^verbatim>\<open>fileno_to_fatfs\<close> has found the engine object,
  \<^verbatim>\<open>fileno_to_stream\<close> cannot return NULL; the \<open>None\<close> case of the dereference cannot be
  reached. The message printed on a position mismatch is console output and is left out.
\<close>

definition lseek ::
  "header \<Rightarrow> 'w engine \<Rightarrow> int \<Rightarrow> 32 word \<Rightarrow> int \<Rightarrow> 'w posix \<Rightarrow> 32 word \<times> 'w posix" where
  "lseek K E fd position whence s0 =
    (let s = s0\<lparr>errno := 0\<rparr> in
     case fileno_to_fatfs fd s of
       (None, s1) \<Rightarrow> (- 1, s1\<lparr>errno := EMFILE\<rparr>)
     | (Some fh, s1) \<Rightarrow>
         if isatty fd then (- 1, s1)
         else
           (case fileno_to_stream fd s1 of
              (None, s2) \<Rightarrow> (- 1, s2)
            | (Some stream, s2) \<Rightarrow>
                (let s3 = upd_stream stream (\<lambda>f. f\<lparr>flags := insert SUNGET (flags f)\<rparr>) s2;
                     position1 =
                       (if whence = SEEK_END K then position + f_size (fils s3 fh)
                        else if whence = SEEK_CUR K then position + fptr (fils s3 fh)
                        else position)
                 in case f_lseek E (world s3) (fils s3 fh) position1 of
                      (res, w1, fil1) \<Rightarrow>
                        (let s4 = s3\<lparr>world := w1, fils := (fils s3)(fh := fil1)\<rparr> in
                         if res \<noteq> 0 then (- 1, s4\<lparr>errno := fatfs_to_errno res\<rparr>)
                         else if position1 \<noteq> f_tell fil1 then (- 1, s4)
                         else (fptr fil1, s4)))))"

text \<open>\<^verbatim>\<open>close\<close>: the engine closes the file, then the descriptor is freed whatever the result.\<close>

definition close :: "'w engine \<Rightarrow> int \<Rightarrow> 'w posix \<Rightarrow> int \<times> 'w posix" where
  "close E fd s0 =
    (let s = s0\<lparr>errno := 0\<rparr> in
     case fileno_to_stream fd s of
       (None, s1) \<Rightarrow> (- 1, s1)
     | (Some stream, s1) \<Rightarrow>
         (case fileno_to_fatfs fd s1 of
            (None, s2) \<Rightarrow> (- 1, s2)
          | (Some fh, s2) \<Rightarrow>
              (case f_close E (world s2) (fils s2 fh) of
                 (res, w1, fil1) \<Rightarrow>
                   (case free_file_descriptor fd (s2\<lparr>world := w1, fils := (fils s2)(fh := fil1)\<rparr>) of
                      (r, s3) \<Rightarrow>
                        if res \<noteq> FR_OK then (- 1, s3\<lparr>errno := fatfs_to_errno res\<rparr>)
                        else (0, s3)))))"

text \<open>
  \<^verbatim>\<open>open\<close>. The mode byte given to the engine is \<^verbatim>\<open>(BYTE) (fatfs_modes & 0xff)\<close>.
  \<^verbatim>\<open>_FDEV_SETUP_READ\<close>, \<^verbatim>\<open>_FDEV_SETUP_WRITE\<close> and \<^verbatim>\<open>_FDEV_SETUP_RW\<close> are the flags
  \<^verbatim>\<open>__SRD\<close>, \<^verbatim>\<open>__SWR\<close> and both.
\<close>

definition fatfs_modes_of :: "header \<Rightarrow> int \<Rightarrow> int" where
  "fatfs_modes_of K oflags =
    (let m = (if oflags AND O_ACCMODE K = O_RDWR K then FA_READ K OR FA_WRITE K
              else if oflags AND O_ACCMODE K = O_RDONLY K then FA_READ K
              else FA_WRITE K)
     in if oflags AND O_CREAT K \<noteq> 0 then
          (if oflags AND O_TRUNC K \<noteq> 0 then m OR FA_CREATE_ALWAYS K
           else m OR FA_OPEN_ALWAYS K)
        else m)"

definition bind_stream :: "header \<Rightarrow> int \<Rightarrow> addr \<Rightarrow> 'w posix \<Rightarrow> 'w posix" where
  "bind_stream K oflags stream s =
    (if oflags AND O_ACCMODE K = O_RDWR K then
       upd_stream stream (\<lambda>f. f\<lparr>put := Some Put_fatfs, get := Some Get_fatfs,
                                  flags := {SRD, SWR}\<rparr>) s
     else if oflags AND O_ACCMODE K = O_RDONLY K then
       upd_stream stream (\<lambda>f. f\<lparr>put := None, get := Some Get_fatfs, flags := {SRD}\<rparr>) s
     else
       upd_stream stream (\<lambda>f. f\<lparr>put := Some Put_fatfs, get := None, flags := {SWR}\<rparr>) s)"

definition "open" ::
  "header \<Rightarrow> 'w engine \<Rightarrow> string \<Rightarrow> int \<Rightarrow> 'w posix \<Rightarrow> int \<times> 'w posix" where
  "open K E pathname oflags s0 =
    (let s = s0\<lparr>errno := 0\<rparr>;
         fatfs_modes = fatfs_modes_of K oflags
     in case new_file_descriptor s of
          (fd, s1) \<Rightarrow>
            (case fileno_to_stream fd s1 of
               (None, s2) \<Rightarrow>
                 (case free_file_descriptor fd s2 of (r, s3) \<Rightarrow> (- 1, s3))
             | (Some stream, s2) \<Rightarrow>
                 (case fileno_to_fatfs fd s2 of
                    (None, s3) \<Rightarrow>
                      (case free_file_descriptor fd s3 of
                         (r, s4) \<Rightarrow> (- 1, s4\<lparr>errno := EBADF\<rparr>))
                  | (Some fh, s3) \<Rightarrow>
                      (case f_open E (world s3) (fils s3 fh) pathname
                              (word_of_int (fatfs_modes AND 0xff)) of
                         (res, w1, fil1) \<Rightarrow>
                           (let s4 = s3\<lparr>world := w1, fils := (fils s3)(fh := fil1)\<rparr> in
                            if res \<noteq> FR_OK then
                              (case free_file_descriptor fd (s4\<lparr>errno := fatfs_to_errno res\<rparr>) of
                                 (r, s5) \<Rightarrow> (- 1, s5))
                            else if oflags AND O_APPEND K \<noteq> 0 then
                              (case f_lseek E w1 fil1 (f_size fil1) of
                                 (res2, w2, fil2) \<Rightarrow>
                                   (let s5 = s4\<lparr>world := w2, fils := (fils s4)(fh := fil2)\<rparr> in
                                    if res2 \<noteq> FR_OK then
                                      (case f_close E w2 fil2 of
                                         (res3, w3, fil3) \<Rightarrow>
                                           (case free_file_descriptor fd
                                                   (s5\<lparr>errno := fatfs_to_errno res2, world := w3,
                                                       fils := (fils s5)(fh := fil3)\<rparr>) of
                                              (r, s6) \<Rightarrow> (- 1, s6)))
                                    else (fd, bind_stream K oflags stream s5)))
                            else (fd, bind_stream K oflags stream s4))))))"

text \<open>\<^verbatim>\<open>fopen\<close>: the mode string is translated and given to \<^verbatim>\<open>open\<close> as it comes.\<close>

definition fopen ::
  "header \<Rightarrow> 'w engine \<Rightarrow> string \<Rightarrow> string \<Rightarrow> 'w posix \<Rightarrow> addr option \<times> 'w posix" where
  "fopen K E path mode s =
    (let oflags = posix_fopen_modes_to_open K mode in
     case open K E path oflags s of
       (fd, s1) \<Rightarrow> fileno_to_stream fd s1)"

text \<open>
  \<^verbatim>\<open>read\<close>. The caller's buffer is the list \<open>buf0\<close> (the caller gives at least one byte, and
  at least \<open>count\<close> of them: a store past the end of the list is not part of the model,
  and list update ignores it). The result is the return value, the buffer and the state;
  it is \<open>None\<close> where the source dereferences a NULL pointer: \<^verbatim>\<open>stream == stdin\<close> also
  holds when both are NULL.

  The console loop \<^verbatim>\<open>while(count--)\<close> stores the bytes \<^verbatim>\<open>fgetc\<close> delivers; \<open>i\<close> is both
  \<^verbatim>\<open>size\<close> and the offset of \<^verbatim>\<open>ptr\<close>.
\<close>

fun read_tty_loop ::
  "'w engine \<Rightarrow> addr \<Rightarrow> nat \<Rightarrow> nat \<Rightarrow> byte list \<Rightarrow> 'w posix \<Rightarrow> (nat \<times> byte list \<times> 'w posix) option"
  where
  "read_tty_loop E stream 0 i bf s = Some (i, bf, s)"
| "read_tty_loop E stream (Suc count) i bf s =
    (case fgetc E (Some stream) s of
       None \<Rightarrow> None
     | Some (ret, s1) \<Rightarrow>
         if ret < 0 then Some (i, bf, s1)
         else read_tty_loop E stream count (Suc i) (bf[i := word_of_int ret]) s1)"

text \<open>The engine stores the bytes it read at the start of the buffer.\<close>

definition store_bytes :: "byte list \<Rightarrow> byte list \<Rightarrow> byte list" where
  "store_bytes data bf = take (length bf) data @ drop (length data) bf"

definition read ::
  "'w engine \<Rightarrow> int \<Rightarrow> byte list \<Rightarrow> nat \<Rightarrow> 'w posix \<Rightarrow> (int \<times> byte list \<times> 'w posix) option" where
  "read E fd buf0 count s0 =
    (let bf = buf0[0 := 0];
         s = s0\<lparr>errno := 0\<rparr>
     in case fileno_to_stream fd s of
          (stream, s1) \<Rightarrow>
            if stream = stdin s1 then
              (case stream of
                 None \<Rightarrow> None
               | Some a \<Rightarrow>
                   (case read_tty_loop E a count 0 bf
                           (upd_stream a (\<lambda>f. f\<lparr>flags := insert SUNGET (flags f)\<rparr>) s1) of
                      None \<Rightarrow> None
                    | Some (sz, buf1, s2) \<Rightarrow> Some (int sz, buf1, s2)))
            else if stream = stdout s1 \<or> stream = stderr s1 then Some (- 1, bf, s1)
            else
              (case fileno_to_fatfs fd s1 of
                 (None, s2) \<Rightarrow> Some (- 1, bf, s2\<lparr>errno := EBADF\<rparr>)
               | (Some fh, s2) \<Rightarrow>
                   (case f_read E (world s2) (fils s2 fh) count of
                      (res, data, w1, fil1) \<Rightarrow>
                        (let s3 = s2\<lparr>world := w1, fils := (fils s2)(fh := fil1)\<rparr>;
                             buf1 = store_bytes data bf
                         in if res \<noteq> FR_OK then Some (- 1, buf1, s3\<lparr>errno := fatfs_to_errno res\<rparr>)
                            else Some (int (length data), buf1, s3)))))"

section \<open>An engine in memory\<close>

text \<open>
  Modelled from the spec: the FatFs engine (ff.c) and the console transport are external
  collaborators. To run the bridge on concrete inputs, \<open>ram_engine\<close> is a small engine
  with the same call contract: the world is a list of named files and the bytes waiting
  on the console; an open-file object names its file by the index \<open>obj\<close>. A read
  delivers the bytes from the file position on and advances it, a seek past the end of
  the file is clamped to the end, opening a missing file fails with \<^verbatim>\<open>FR_NO_FILE\<close>.
\<close>

record ram =
  disk :: "(string \<times> byte list) list"
  console :: "int list"

fun find_file :: "(string \<times> byte list) list \<Rightarrow> string \<Rightarrow> nat \<Rightarrow> nat option" where
  "find_file [] path i = None"
| "find_file (f # fs) path i = (if fst f = path then Some i else find_file fs path (Suc i))"

definition ram_content :: "ram \<Rightarrow> FIL \<Rightarrow> byte list" where
  "ram_content w fh = (if obj fh < length (disk w) then snd (disk w ! obj fh) else [])"

definition ram_open :: "ram \<Rightarrow> FIL \<Rightarrow> string \<Rightarrow> byte \<Rightarrow> FRESULT \<times> ram \<times> FIL" where
  "ram_open w fh path mode =
    (case find_file (disk w) path 0 of
       None \<Rightarrow> (FR_NO_FILE, w, fh)
     | Some i \<Rightarrow>
         (FR_OK, w, \<lparr>fptr = 0, objsize = of_nat (length (snd (disk w ! i))), obj = i\<rparr>))"

definition ram_close :: "ram \<Rightarrow> FIL \<Rightarrow> FRESULT \<times> ram \<times> FIL" where
  "ram_close w fh = (FR_OK, w, fh)"

definition ram_read :: "ram \<Rightarrow> FIL \<Rightarrow> nat \<Rightarrow> FRESULT \<times> byte list \<times> ram \<times> FIL" where
  "ram_read w fh n =
    (let data = take n (drop (unat (fptr fh)) (ram_content w fh))
     in (FR_OK, data, w, fh\<lparr>fptr := fptr fh + of_nat (length data)\<rparr>))"

definition ram_lseek :: "ram \<Rightarrow> FIL \<Rightarrow> 32 word \<Rightarrow> FRESULT \<times> ram \<times> FIL" where
  "ram_lseek w fh ofs = (FR_OK, w, fh\<lparr>fptr := (if ofs \<le> objsize fh then ofs else objsize fh)\<rparr>)"

definition ram_get :: "ram \<Rightarrow> int \<times> ram" where
  "ram_get w =
    (case console w of
       [] \<Rightarrow> (FDEV_EOF, w)
     | c # cs \<Rightarrow> (c, w\<lparr>console := cs\<rparr>))"

definition ram_engine :: "ram engine" where
  "ram_engine = \<lparr>f_open = ram_open, f_close = ram_close, f_read = ram_read,
                  f_lseek = ram_lseek, dev_get = ram_get\<rparr>"

text \<open>
  An engine whose disk has failed: every call reports \<^verbatim>\<open>FR_DISK_ERR\<close> and transfers nothing.
\<close>

definition broken_engine :: "ram engine" where
  "broken_engine =
    \<lparr>f_open = (\<lambda>w fh path mode. (FR_DISK_ERR, w, fh)),
     f_close = (\<lambda>w fh. (FR_DISK_ERR, w, fh)),
     f_read = (\<lambda>w fh n. (FR_DISK_ERR, [], w, fh)),
     f_lseek = (\<lambda>w fh ofs. (FR_DISK_ERR, w, fh)),
     dev_get = ram_get\<rparr>"

section \<open>Concrete states\<close>

text \<open>
  A disk with one file, \<^verbatim>\<open>/a.txt\<close>, holding the seven bytes \<^verbatim>\<open>a \r \n b \r c \r\<close>.
\<close>

definition ram0 :: ram where
  "ram0 = \<lparr>disk = [(''/a.txt'', [0x61, 0x0D, 0x0A, 0x62, 0x0D, 0x63, 0x0D])], console = []\<rparr>"

text \<open>
  The state after startup, with a table of six slots: \<^verbatim>\<open>fdevopen\<close> has registered a
  console input (the stream at address 1, \<^verbatim>\<open>stdin\<close>) and a console output (the stream at
  address 2, both \<^verbatim>\<open>stdout\<close> and \<^verbatim>\<open>stderr\<close>); no file is open; the allocator has two
  objects to give, at the addresses 7 and 9.
\<close>

definition tty_in :: FILE where
  "tty_in = zero_FILE\<lparr>flags := {SMALLOC, SRD}, get := Some Get_dev\<rparr>"

definition tty_out :: FILE where
  "tty_out = zero_FILE\<lparr>flags := {SMALLOC, SWR}, put := Some Put_dev\<rparr>"

definition boot :: "ram posix" where
  "boot =
    \<lparr>iob = [Some 1, Some 2, Some 2, None, None, None],
     files = (\<lambda>a. zero_FILE)(1 := tty_in, 2 := tty_out),
     fils = (\<lambda>a. zero_FIL),
     bufs = (\<lambda>a off. 0),
     live_files = {1, 2},
     live_fils = {},
     live_bufs = {},
     mem = [Some 7, Some 9],
     errno = 0,
     world = ram0\<rparr>"

text \<open>
  The state with \<^verbatim>\<open>/a.txt\<close> open for reading on handle 3 and the file position at
  \<open>pos\<close>; \<open>opened_at 0\<close> is what \<^verbatim>\<open>open("/a.txt", O_RDONLY)\<close> makes of \<open>boot\<close>.
\<close>

definition opened_at :: "32 word \<Rightarrow> ram posix" where
  "opened_at pos =
    boot\<lparr>iob := [Some 1, Some 2, Some 2, Some 7, None, None],
         files := (files boot)(7 := zero_FILE\<lparr>flags := {SRD}, get := Some Get_fatfs,
                                                udata := Some 9\<rparr>),
         fils := (fils boot)(9 := \<lparr>fptr = pos, objsize = 7, obj = 0\<rparr>),
         live_files := {1, 2, 7},
         live_fils := {9},
         mem := []\<rparr>"

text \<open>A state whose table is full.\<close>

definition full :: "ram posix" where
  "full = boot\<lparr>iob := [Some 1, Some 2, Some 2, Some 3, Some 4, Some 5]\<rparr>"

section \<open>Notions used in the statements\<close>

text \<open>
  The mode strings of the mode grammar, the three append-and-read strings apart.
\<close>

definition listed_modes :: "string list" where
  "listed_modes = [''r'', ''rb'', ''r+'', ''r+b'', ''rb+'', ''w'', ''wb'', ''w+'', ''w+b'', ''wb+'',
                   ''a'', ''ab'']"

text \<open>A slot that \<^verbatim>\<open>new_file_descriptor\<close> may hand out: not a console slot, and empty.\<close>

definition free_slot :: "'w posix \<Rightarrow> nat \<Rightarrow> bool" where
  "free_slot s i = (3 \<le> i \<and> i < length (iob s) \<and> iob s ! i = None)"

section \<open>Unfolding rules\<close>

lemmas errno_defs = EPERM_def ENOENT_def EIO_def ENXIO_def EBADF_def ENOMEM_def EACCES_def
  EBUSY_def EINVAL_def ENFILE_def EMFILE_def ENOSPC_def EROFS_def EBADMSG_def

lemmas FR_defs = FR_OK_def FR_DISK_ERR_def FR_INT_ERR_def FR_NOT_READY_def FR_NO_FILE_def
  FR_NO_PATH_def FR_INVALID_NAME_def FR_DENIED_def FR_EXIST_def FR_INVALID_OBJECT_def
  FR_WRITE_PROTECTED_def FR_INVALID_DRIVE_def FR_NOT_ENABLED_def FR_NO_FILESYSTEM_def
  FR_MKFS_ABORTED_def FR_TIMEOUT_def FR_LOCKED_def FR_NOT_ENOUGH_CORE_def
  FR_TOO_MANY_OPEN_FILES_def FR_INVALID_PARAMETER_def

lemmas ram_defs = ram_engine_def broken_engine_def ram_open_def ram_close_def ram_read_def
  ram_lseek_def ram_get_def ram_content_def ram0_def

lemmas state_defs = boot_def opened_at_def full_def tty_in_def tty_out_def zero_FILE_def
  zero_FIL_def

lemmas table_defs = new_file_descriptor_def new_fd_at_def safecalloc_FILE_def
  safecalloc_FIL_def safefree_FILE_def safefree_FIL_def safefree_buf_def
  free_file_descriptor_def fileno_to_stream_def fileno_to_fatfs_def MAX_FILES_def isatty_def

section \<open>Error translator\<close>

text \<open>
  Claim C9. \<^verbatim>\<open>fatfs_to_errno\<close> maps every engine result: \<^verbatim>\<open>FR_OK\<close> to 0, each of the
  nineteen engine errors to its fixed POSIX code, and every other value \<open>r\<close> (below
  \<^verbatim>\<open>FR_OK\<close> or above \<^verbatim>\<open>FR_INVALID_PARAMETER\<close>) to \<^verbatim>\<open>EBADMSG\<close>, whose message in
  \<^verbatim>\<open>sys_errlist\<close> is "Bad Message". Whatever the input, the result is an index of
  \<^verbatim>\<open>sys_errlist\<close>.
\<close>

theorem fatfs_to_errno_total:
  "fatfs_to_errno FR_OK = 0 \<and>
   fatfs_to_errno FR_DISK_ERR = EIO \<and>
   fatfs_to_errno FR_INT_ERR = EPERM \<and>
   fatfs_to_errno FR_NOT_READY = EBUSY \<and>
   fatfs_to_errno FR_NO_FILE = ENOENT \<and>
   fatfs_to_errno FR_NO_PATH = ENOENT \<and>
   fatfs_to_errno FR_INVALID_NAME = EINVAL \<and>
   fatfs_to_errno FR_DENIED = EACCES \<and>
   fatfs_to_errno FR_EXIST = EACCES \<and>
   fatfs_to_errno FR_INVALID_OBJECT = EINVAL \<and>
   fatfs_to_errno FR_WRITE_PROTECTED = EROFS \<and>
   fatfs_to_errno FR_INVALID_DRIVE = ENXIO \<and>
   fatfs_to_errno FR_NOT_ENABLED = ENOSPC \<and>
   fatfs_to_errno FR_NO_FILESYSTEM = ENXIO \<and>
   fatfs_to_errno FR_MKFS_ABORTED = EINVAL \<and>
   fatfs_to_errno FR_TIMEOUT = EBUSY \<and>
   fatfs_to_errno FR_LOCKED = EBUSY \<and>
   fatfs_to_errno FR_NOT_ENOUGH_CORE = ENOMEM \<and>
   fatfs_to_errno FR_TOO_MANY_OPEN_FILES = EMFILE \<and>
   fatfs_to_errno FR_INVALID_PARAMETER = EINVAL \<and>
   (r < FR_OK \<or> FR_INVALID_PARAMETER < r \<longrightarrow> fatfs_to_errno r = EBADMSG) \<and>
   0 \<le> fatfs_to_errno r \<and> nat (fatfs_to_errno r) < length sys_errlist \<and>
   sys_errlist ! nat EBADMSG = ''Bad Message''"
  by (simp add: fatfs_to_errno_def FR_defs errno_defs sys_errlist_def)

theorem fatfs_to_errno_total_witness:
  "FR_INVALID_PARAMETER < 42 \<and> fatfs_to_errno 42 = EBADMSG \<and> fatfs_to_errno (- 1) = 35"
  using fatfs_to_errno_total [of 42] fatfs_to_errno_total [of "- 1"]
  by (simp add: FR_defs errno_defs)

section \<open>Mode strings: the translation table\<close>

text \<open>
  Claim C8. \<^verbatim>\<open>posix_fopen_modes_to_open\<close> returns the flags of each of the twelve mode
  strings for read, read-write, write, write-read and append; for \<^verbatim>\<open>"a+"\<close>,
  \<^verbatim>\<open>"a+b"\<close> and \<^verbatim>\<open>"ab+"\<close> it returns \<open>-1\<close>, not the read-write, create, append
  flags it has computed, so that \<^verbatim>\<open>fopen\<close> gives \<open>-1\<close> to \<^verbatim>\<open>open\<close> for them; every
  string outside the grammar gives \<open>-1\<close>.
\<close>

theorem posix_fopen_modes_to_open_table:
  "posix_fopen_modes_to_open K ''r'' = O_RDONLY K \<and>
   posix_fopen_modes_to_open K ''rb'' = O_RDONLY K \<and>
   posix_fopen_modes_to_open K ''r+'' = (O_RDWR K OR O_TRUNC K) \<and>
   posix_fopen_modes_to_open K ''r+b'' = (O_RDWR K OR O_TRUNC K) \<and>
   posix_fopen_modes_to_open K ''rb+'' = (O_RDWR K OR O_TRUNC K) \<and>
   posix_fopen_modes_to_open K ''w'' = (O_WRONLY K OR O_CREAT K OR O_TRUNC K) \<and>
   posix_fopen_modes_to_open K ''wb'' = (O_WRONLY K OR O_CREAT K OR O_TRUNC K) \<and>
   posix_fopen_modes_to_open K ''w+'' = (O_RDWR K OR O_CREAT K OR O_TRUNC K) \<and>
   posix_fopen_modes_to_open K ''w+b'' = (O_RDWR K OR O_CREAT K OR O_TRUNC K) \<and>
   posix_fopen_modes_to_open K ''wb+'' = (O_RDWR K OR O_CREAT K OR O_TRUNC K) \<and>
   posix_fopen_modes_to_open K ''a'' = (O_WRONLY K OR O_CREAT K OR O_APPEND K) \<and>
   posix_fopen_modes_to_open K ''ab'' = (O_WRONLY K OR O_CREAT K OR O_APPEND K) \<and>
   posix_fopen_modes_to_open K ''a+'' = - 1 \<and>
   posix_fopen_modes_to_open K ''a+b'' = - 1 \<and>
   posix_fopen_modes_to_open K ''ab+'' = - 1 \<and>
   (mode \<notin> set listed_modes \<longrightarrow> posix_fopen_modes_to_open K mode = - 1) \<and>
   (mode \<in> {''a+'', ''a+b'', ''ab+''} \<longrightarrow>
      fopen K E path mode s = (case open K E path (- 1) s of (fd, s1) \<Rightarrow> fileno_to_stream fd s1))"
  by (simp add: posix_fopen_modes_to_open_def modecmp_def listed_modes_def fopen_def Let_def)

theorem posix_fopen_modes_to_open_table_witness:
  "''rw'' \<notin> set listed_modes \<and> posix_fopen_modes_to_open K0 ''rw'' = - 1 \<and>
   posix_fopen_modes_to_open K0 ''a+'' = - 1 \<and>
   (O_RDWR K0 OR O_CREAT K0 OR O_APPEND K0) = 1090 \<and>
   posix_fopen_modes_to_open K0 ''a'' = 1089"
  using posix_fopen_modes_to_open_table [of K0 "''rw''"]
  by (simp add: listed_modes_def K0_def)

section \<open>Descriptor table: allocation\<close>

lemma new_fd_loop_find:
  "new_fd_loop js s =
    (case find (\<lambda>i. \<not> isatty (int i) \<and> iob s ! i = None) js of
       None \<Rightarrow> (- 1, s\<lparr>errno := ENFILE\<rparr>)
     | Some i \<Rightarrow> new_fd_at i s)"
  by (induction js) auto

lemma isatty_int: "isatty (int i) = (i < 3)"
  by (auto simp: isatty_def)

lemma find_free_None:
  "(find (\<lambda>i. \<not> isatty (int i) \<and> iob s ! i = None) [0..<length (iob s)] = None) =
   (\<forall>i. \<not> free_slot s i)"
  by (auto simp: find_None_iff free_slot_def isatty_int not_less)

lemma find_upt_Some:
  "(find P [0..<n] = Some i) = (i < n \<and> P i \<and> (\<forall>j<i. \<not> P j))"
proof
  assume "find P [0..<n] = Some i"
  then obtain k where k: "k < n" "P ([0..<n] ! k)" "i = [0..<n] ! k"
      "\<forall>j<k. \<not> P ([0..<n] ! j)"
    by (auto simp: find_Some_iff)
  from k(1,3) have ik: "i = k" by simp
  have "\<forall>j<i. \<not> P j"
  proof (intro allI impI)
    fix j assume "j < i"
    with ik k(1) have "j < k" "j < n" by auto
    with k(4) show "\<not> P j" by auto
  qed
  with k ik show "i < n \<and> P i \<and> (\<forall>j<i. \<not> P j)" by auto
next
  assume a: "i < n \<and> P i \<and> (\<forall>j<i. \<not> P j)"
  then have "i < length [0..<n] \<and> P ([0..<n] ! i) \<and> i = [0..<n] ! i \<and>
             (\<forall>j<i. \<not> P ([0..<n] ! j))"
    by auto
  then show "find P [0..<n] = Some i"
    unfolding find_Some_iff by blast
qed

lemma find_free_Some:
  "(find (\<lambda>i. \<not> isatty (int i) \<and> iob s ! i = None) [0..<length (iob s)] = Some i) =
   (free_slot s i \<and> (\<forall>j<i. \<not> free_slot s j))"
  unfolding find_upt_Some by (auto simp: isatty_int free_slot_def not_less)

lemma new_fd_at_cases:
  "new_fd_at i s =
    (case mem s of
       [] \<Rightarrow> (- 1, s\<lparr>errno := ENOMEM\<rparr>)
     | None # rest \<Rightarrow> (- 1, s\<lparr>mem := rest, errno := ENOMEM\<rparr>)
     | Some a # [] \<Rightarrow>
         (- 1, s\<lparr>mem := [], files := (files s)(a := zero_FILE),
                 live_files := insert a (live_files s) - {a}, errno := ENOMEM\<rparr>)
     | Some a # None # rest \<Rightarrow>
         (- 1, s\<lparr>mem := rest, files := (files s)(a := zero_FILE),
                 live_files := insert a (live_files s) - {a}, errno := ENOMEM\<rparr>)
     | Some a # Some b # rest \<Rightarrow>
         (int i, s\<lparr>mem := rest, iob := (iob s)[i := Some a],
                   files := (files s)(a := zero_FILE\<lparr>udata := Some b\<rparr>),
                   fils := (fils s)(b := zero_FIL),
                   live_files := insert a (live_files s),
                   live_fils := insert b (live_fils s)\<rparr>))"
  by (simp add: new_fd_at_def safecalloc_FILE_def safecalloc_FIL_def safefree_FILE_def
      split: list.splits option.splits)

lemma new_file_descriptor_find:
  "new_file_descriptor s =
    (case find (\<lambda>i. \<not> isatty (int i) \<and> iob s ! i = None) [0..<length (iob s)] of
       None \<Rightarrow> (- 1, s\<lparr>errno := ENFILE\<rparr>)
     | Some i \<Rightarrow> new_fd_at i s)"
  by (simp add: new_file_descriptor_def new_fd_loop_find)

lemma new_file_descriptor_full:
  "\<forall>i. \<not> free_slot s i \<Longrightarrow> new_file_descriptor s = (- 1, s\<lparr>errno := ENFILE\<rparr>)"
  using find_free_None [of s] by (simp add: new_file_descriptor_find)

lemma new_file_descriptor_at:
  "free_slot s i \<Longrightarrow> \<forall>j<i. \<not> free_slot s j \<Longrightarrow> new_file_descriptor s = new_fd_at i s"
  using find_free_Some [of s i] by (simp add: new_file_descriptor_find)

lemma first_free_exists:
  assumes "free_slot s k"
  shows "\<exists>i. free_slot s i \<and> (\<forall>j<i. \<not> free_slot s j)"
proof -
  let ?i = "LEAST i. free_slot s i"
  have "free_slot s ?i" using assms by (rule LeastI)
  moreover have "\<forall>j<?i. \<not> free_slot s j" using not_less_Least by blast
  ultimately show ?thesis by blast
qed

lemma new_fd_at_errno:
  "fst (new_fd_at i s) = - 1 \<Longrightarrow> errno (snd (new_fd_at i s)) = ENOMEM"
  by (auto simp: new_fd_at_cases split: list.splits option.splits)

lemma new_fd_at_ret:
  "fst (new_fd_at i s) = - 1 \<or> fst (new_fd_at i s) = int i"
  by (auto simp: new_fd_at_cases split: list.splits option.splits)

lemma new_fd_at_iob:
  "fst (new_fd_at i s) = - 1 \<Longrightarrow> iob (snd (new_fd_at i s)) = iob s"
  by (auto simp: new_fd_at_cases split: list.splits option.splits)

text \<open>
  Claim C3. \<^verbatim>\<open>new_file_descriptor\<close> returns \<open>-1\<close> with \<^verbatim>\<open>errno = ENFILE\<close> exactly when
  no slot from 3 on is free. Whenever it returns a handle, the handle is the smallest free
  slot from 3 on. When such a slot exists and the allocator delivers the two objects, it
  returns that slot and binds it to the new stream and engine object; on a table whose
  slots from 3 on are all empty the handle is 3. The one other failure is a failed
  allocation while a slot is free: \<open>-1\<close> with \<^verbatim>\<open>errno = ENOMEM\<close>, the table unchanged.
\<close>

theorem new_file_descriptor_first_free:
  "((fst (new_file_descriptor s) = - 1 \<and> errno (snd (new_file_descriptor s)) = ENFILE) =
      (\<forall>i. \<not> free_slot s i)) \<and>
   (fst (new_file_descriptor s) \<noteq> - 1 \<longrightarrow>
      (\<exists>i. fst (new_file_descriptor s) = int i \<and> free_slot s i \<and>
           (\<forall>j<i. \<not> free_slot s j))) \<and>
   (free_slot s i \<and> (\<forall>j<i. \<not> free_slot s j) \<and> mem s = Some a # Some b # rest \<longrightarrow>
      new_file_descriptor s =
        (int i, s\<lparr>mem := rest, iob := (iob s)[i := Some a],
                  files := (files s)(a := zero_FILE\<lparr>udata := Some b\<rparr>),
                  fils := (fils s)(b := zero_FIL),
                  live_files := insert a (live_files s),
                  live_fils := insert b (live_fils s)\<rparr>)) \<and>
   (3 < length (iob s) \<and> (\<forall>j. 3 \<le> j \<and> j < length (iob s) \<longrightarrow> iob s ! j = None) \<and>
    mem s = Some a # Some b # rest \<longrightarrow>
      fst (new_file_descriptor s) = 3) \<and>
   (fst (new_file_descriptor s) = - 1 \<and> free_slot s k \<longrightarrow>
      errno (snd (new_file_descriptor s)) = ENOMEM \<and>
      iob (snd (new_file_descriptor s)) = iob s)"
proof (intro conjI impI)
  show "(fst (new_file_descriptor s) = - 1 \<and> errno (snd (new_file_descriptor s)) = ENFILE) =
      (\<forall>i. \<not> free_slot s i)"
  proof (cases "\<forall>i. \<not> free_slot s i")
    case True
    then show ?thesis by (simp add: new_file_descriptor_full)
  next
    case False
    then obtain i where i: "free_slot s i" "\<forall>j<i. \<not> free_slot s j"
      using first_free_exists by blast
    then have eq: "new_file_descriptor s = new_fd_at i s" by (rule new_file_descriptor_at)
    have "\<not> (fst (new_fd_at i s) = - 1 \<and> errno (snd (new_fd_at i s)) = ENFILE)"
      using new_fd_at_errno [of i s] by (auto simp: ENOMEM_def ENFILE_def)
    with False eq show ?thesis by auto
  qed
next
  assume ne: "fst (new_file_descriptor s) \<noteq> - 1"
  have "\<not> (\<forall>i. \<not> free_slot s i)"
  proof
    assume "\<forall>i. \<not> free_slot s i"
    from new_file_descriptor_full [OF this] ne show False by simp
  qed
  then obtain i where i: "free_slot s i" "\<forall>j<i. \<not> free_slot s j"
    using first_free_exists by blast
  then have eq: "new_file_descriptor s = new_fd_at i s" by (rule new_file_descriptor_at)
  with ne new_fd_at_ret [of i s] have "fst (new_file_descriptor s) = int i" by auto
  with i show "\<exists>i. fst (new_file_descriptor s) = int i \<and> free_slot s i \<and>
           (\<forall>j<i. \<not> free_slot s j)" by blast
next
  assume a: "free_slot s i \<and> (\<forall>j<i. \<not> free_slot s j) \<and> mem s = Some a # Some b # rest"
  then have "new_file_descriptor s = new_fd_at i s" by (simp add: new_file_descriptor_at)
  with a show "new_file_descriptor s =
        (int i, s\<lparr>mem := rest, iob := (iob s)[i := Some a],
                  files := (files s)(a := zero_FILE\<lparr>udata := Some b\<rparr>),
                  fils := (fils s)(b := zero_FIL),
                  live_files := insert a (live_files s),
                  live_fils := insert b (live_fils s)\<rparr>)"
    by (simp add: new_fd_at_cases)
next
  assume a: "3 < length (iob s) \<and> (\<forall>j. 3 \<le> j \<and> j < length (iob s) \<longrightarrow> iob s ! j = None) \<and>
    mem s = Some a # Some b # rest"
  then have "free_slot s 3" "\<forall>j<3. \<not> free_slot s j" by (auto simp: free_slot_def)
  then have "new_file_descriptor s = new_fd_at 3 s" by (rule new_file_descriptor_at)
  with a show "fst (new_file_descriptor s) = 3" by (simp add: new_fd_at_cases)
next
  assume a: "fst (new_file_descriptor s) = - 1 \<and> free_slot s k"
  then obtain i where i: "free_slot s i" "\<forall>j<i. \<not> free_slot s j"
    using first_free_exists by blast
  then have eq: "new_file_descriptor s = new_fd_at i s" by (rule new_file_descriptor_at)
  with a show "errno (snd (new_file_descriptor s)) = ENOMEM"
    by (simp add: new_fd_at_errno)
  from a eq show "iob (snd (new_file_descriptor s)) = iob s"
    by (simp add: new_fd_at_iob)
qed

theorem new_file_descriptor_first_free_witness:
  "free_slot boot 3 \<and> mem boot = [Some 7, Some 9] \<and>
   fst (new_file_descriptor boot) = 3 \<and>
   iob (snd (new_file_descriptor boot)) = [Some 1, Some 2, Some 2, Some 7, None, None] \<and>
   fst (new_file_descriptor full) = - 1 \<and> errno (snd (new_file_descriptor full)) = ENFILE"
proof -
  have h: "free_slot boot 3 \<and> (\<forall>j<3. \<not> free_slot boot j) \<and> mem boot = Some 7 # Some 9 # []"
    by (simp add: free_slot_def boot_def)
  have f: "\<forall>i. \<not> free_slot full i"
    by (auto simp: free_slot_def full_def boot_def nth_Cons' )
  from new_file_descriptor_first_free [of boot 3 7 9 "[]"] h
  have "new_file_descriptor boot =
        (int 3, boot\<lparr>mem := [], iob := (iob boot)[3 := Some 7],
                  files := (files boot)(7 := zero_FILE\<lparr>udata := Some 9\<rparr>),
                  fils := (fils boot)(9 := zero_FIL),
                  live_files := insert 7 (live_files boot),
                  live_fils := insert 9 (live_fils boot)\<rparr>)"
    by blast
  moreover from new_file_descriptor_first_free [of full 3 7 9 "[]"] f
  have "fst (new_file_descriptor full) = - 1 \<and> errno (snd (new_file_descriptor full)) = ENFILE"
    by blast
  ultimately show ?thesis using h by (simp add: boot_def)
qed

section \<open>Descriptor table: lookup and release\<close>

lemma fileno_to_stream_valid:
  "0 \<le> fd \<Longrightarrow> fd < int (length (iob s)) \<Longrightarrow> iob s ! nat fd = Some a \<Longrightarrow>
   fileno_to_stream fd s = (Some a, s)"
  by (simp add: fileno_to_stream_def MAX_FILES_def)

lemma fileno_to_fatfs_valid:
  "\<not> isatty fd \<Longrightarrow> 0 \<le> fd \<Longrightarrow> fd < int (length (iob s)) \<Longrightarrow> iob s ! nat fd = Some a \<Longrightarrow>
   udata (files s a) = Some fh \<Longrightarrow> fileno_to_fatfs fd s = (Some fh, s)"
  by (simp add: fileno_to_fatfs_def fileno_to_stream_valid)

lemma free_file_descriptor_valid:
  "\<not> isatty fd \<Longrightarrow> 0 \<le> fd \<Longrightarrow> fd < int (length (iob s)) \<Longrightarrow> iob s ! nat fd = Some a \<Longrightarrow>
   free_file_descriptor fd s =
     (fd, s\<lparr>live_fils := (case udata (files s a) of None \<Rightarrow> live_fils s
                             | Some fh \<Rightarrow> live_fils s - {fh}),
            live_bufs := (case buf (files s a) of None \<Rightarrow> live_bufs s
                             | Some p \<Rightarrow> if SMALLOC \<in> flags (files s a)
                                          then live_bufs s - {fst p} else live_bufs s),
            iob := (iob s)[nat fd := None],
            live_files := live_files s - {a}\<rparr>)"
  by (simp add: free_file_descriptor_def fileno_to_stream_valid safefree_FIL_def
      safefree_buf_def safefree_FILE_def Let_def split: option.splits)

lemma free_file_descriptor_minus1:
  "free_file_descriptor (- 1) s = (- 1, s\<lparr>errno := EBADF\<rparr>)"
  by (simp add: free_file_descriptor_def isatty_def fileno_to_stream_def)

text \<open>
  Claim C2. For a handle that is not a console handle, whose slot holds a stream bound to
  an engine object, \<^verbatim>\<open>close\<close> returns 0 when the engine's close succeeds and \<open>-1\<close>
  with \<^verbatim>\<open>errno\<close> set to the translated engine code when it fails; in both cases the
  slot is NULL afterwards and free for \<^verbatim>\<open>new_file_descriptor\<close>, and the stream, the engine
  object and the buffer the stream owns (if any) are released.
\<close>

theorem close_frees_descriptor:
  assumes "\<not> isatty fd" and "0 \<le> fd" and "fd < MAX_FILES s"
    and "iob s ! nat fd = Some a" and "udata (files s a) = Some fh"
    and "f_close E (world s) (fils s fh) = (res, w1, fil1)"
  shows "fst (close E fd s) = (if res = FR_OK then 0 else - 1) \<and>
         errno (snd (close E fd s)) = (if res = FR_OK then 0 else fatfs_to_errno res) \<and>
         iob (snd (close E fd s)) = (iob s)[nat fd := None] \<and>
         free_slot (snd (close E fd s)) (nat fd) \<and>
         live_files (snd (close E fd s)) = live_files s - {a} \<and>
         live_fils (snd (close E fd s)) = live_fils s - {fh} \<and>
         live_bufs (snd (close E fd s)) =
           (case buf (files s a) of
              None \<Rightarrow> live_bufs s
            | Some p \<Rightarrow> if SMALLOC \<in> flags (files s a) then live_bufs s - {fst p}
                         else live_bufs s)"
proof -
  let ?s = "s\<lparr>errno := 0\<rparr>"
  let ?s2 = "s\<lparr>errno := 0, world := w1, fils := (fils s)(fh := fil1)\<rparr>"
  from assms have len: "fd < int (length (iob s))" by (simp add: MAX_FILES_def)
  have st: "fileno_to_stream fd ?s = (Some a, ?s)"
    using assms len by (simp add: fileno_to_stream_valid)
  have ff: "fileno_to_fatfs fd ?s = (Some fh, ?s)"
    using assms len by (simp add: fileno_to_fatfs_valid)
  have fr: "free_file_descriptor fd ?s2 =
     (fd, ?s2\<lparr>live_fils := live_fils s - {fh},
            live_bufs := (case buf (files s a) of None \<Rightarrow> live_bufs s
                             | Some p \<Rightarrow> if SMALLOC \<in> flags (files s a)
                                          then live_bufs s - {fst p} else live_bufs s),
            iob := (iob s)[nat fd := None],
            live_files := live_files s - {a}\<rparr>)"
    using assms len by (simp add: free_file_descriptor_valid split: option.splits)
  have three: "3 \<le> nat fd" using assms(1,2) by (simp add: isatty_def)
  have cl: "close E fd s =
     (if res \<noteq> FR_OK then
        (- 1, (snd (free_file_descriptor fd ?s2))\<lparr>errno := fatfs_to_errno res\<rparr>)
      else (0, snd (free_file_descriptor fd ?s2)))"
    using assms(6) by (simp add: close_def st ff Let_def split: prod.splits)
  show ?thesis
    using three len assms(2) by (simp add: cl fr free_slot_def)
qed

theorem close_frees_descriptor_witness:
  "fst (close ram_engine 3 (opened_at 0)) = 0 \<and>
   iob (snd (close ram_engine 3 (opened_at 0))) = [Some 1, Some 2, Some 2, None, None, None] \<and>
   live_fils (snd (close ram_engine 3 (opened_at 0))) = {} \<and>
   fst (close broken_engine 3 (opened_at 0)) = - 1 \<and>
   errno (snd (close broken_engine 3 (opened_at 0))) = EIO \<and>
   iob (snd (close broken_engine 3 (opened_at 0))) = [Some 1, Some 2, Some 2, None, None, None] \<and>
   live_files (snd (close broken_engine 3 (opened_at 0))) = {1, 2}"
proof -
  have h: "\<not> isatty 3" "(0::int) \<le> 3" "3 < MAX_FILES (opened_at 0)"
    "iob (opened_at 0) ! nat 3 = Some 7" "udata (files (opened_at 0) 7) = Some 9"
    by (simp_all add: isatty_def MAX_FILES_def state_defs)
  have c1: "f_close ram_engine (world (opened_at 0)) (fils (opened_at 0) 9) =
              (FR_OK, ram0, fils (opened_at 0) 9)"
    by (simp add: ram_defs state_defs)
  have c2: "f_close broken_engine (world (opened_at 0)) (fils (opened_at 0) 9) =
              (FR_DISK_ERR, ram0, fils (opened_at 0) 9)"
    by (simp add: ram_defs state_defs)
  from close_frees_descriptor [OF h c1] close_frees_descriptor [OF h c2]
  show ?thesis
    by (simp add: state_defs FR_defs fatfs_to_errno_def errno_defs insert_Diff_if)
qed

section \<open>open: failure and roll back\<close>

lemma new_file_descriptor_cases:
  "(fst (new_file_descriptor s) = - 1 \<and>
      iob (snd (new_file_descriptor s)) = iob s \<and>
      live_files (snd (new_file_descriptor s)) \<subseteq> live_files s \<and>
      ((\<forall>x. Some x \<in> set (mem s) \<longrightarrow> x \<notin> live_files s) \<longrightarrow>
         live_files (snd (new_file_descriptor s)) = live_files s) \<and>
      live_fils (snd (new_file_descriptor s)) = live_fils s \<and>
      live_bufs (snd (new_file_descriptor s)) = live_bufs s) \<or>
   (\<exists>i a b rest. free_slot s i \<and> mem s = Some a # Some b # rest \<and>
      new_file_descriptor s =
        (int i, s\<lparr>mem := rest, iob := (iob s)[i := Some a],
                  files := (files s)(a := zero_FILE\<lparr>udata := Some b\<rparr>),
                  fils := (fils s)(b := zero_FIL),
                  live_files := insert a (live_files s),
                  live_fils := insert b (live_fils s)\<rparr>))"
proof (cases "\<forall>i. \<not> free_slot s i")
  case True
  then show ?thesis by (simp add: new_file_descriptor_full)
next
  case False
  then obtain i where i: "free_slot s i" "\<forall>j<i. \<not> free_slot s j"
    using first_free_exists by blast
  then have eq: "new_file_descriptor s = new_fd_at i s" by (rule new_file_descriptor_at)
  show ?thesis
    unfolding eq using i(1)
    by (cases "mem s" rule: list.exhaust; simp add: new_fd_at_cases split: list.splits option.splits; blast?)
qed

lemma fileno_to_stream_minus1:
  "fileno_to_stream (- 1) s = (None, s\<lparr>errno := EBADF\<rparr>)"
  by (simp add: fileno_to_stream_def)

lemma free_slot_not_tty: "free_slot s i \<Longrightarrow> \<not> isatty (int i) \<and> i < length (iob s) \<and> iob s ! i = None"
  by (auto simp: free_slot_def isatty_def)

lemma open_rollback:
  assumes fail: "fst (open K E pathname oflags s) = - 1"
  shows "iob (snd (open K E pathname oflags s)) = iob s \<and>
         live_files (snd (open K E pathname oflags s)) \<subseteq> live_files s \<and>
         live_fils (snd (open K E pathname oflags s)) \<subseteq> live_fils s \<and>
         live_bufs (snd (open K E pathname oflags s)) = live_bufs s \<and>
         ((\<forall>x. Some x \<in> set (mem s) \<longrightarrow> x \<notin> live_files s \<and> x \<notin> live_fils s) \<longrightarrow>
            live_files (snd (open K E pathname oflags s)) = live_files s \<and>
            live_fils (snd (open K E pathname oflags s)) = live_fils s)"
proof -
  let ?s = "s\<lparr>errno := 0\<rparr>"
  obtain fd s1 where nfd: "new_file_descriptor ?s = (fd, s1)" by force
  from new_file_descriptor_cases [of ?s] nfd
  consider
    (full) "fd = - 1" "iob s1 = iob s" "live_files s1 \<subseteq> live_files s"
      "(\<forall>x. Some x \<in> set (mem s) \<longrightarrow> x \<notin> live_files s) \<longrightarrow> live_files s1 = live_files s"
      "live_fils s1 = live_fils s" "live_bufs s1 = live_bufs s"
  | (slot) i a b rest where "free_slot s i" "mem s = Some a # Some b # rest" "fd = int i"
      "s1 = s\<lparr>errno := 0, mem := rest, iob := (iob s)[i := Some a],
                  files := (files s)(a := zero_FILE\<lparr>udata := Some b\<rparr>),
                  fils := (fils s)(b := zero_FIL),
                  live_files := insert a (live_files s),
                  live_fils := insert b (live_fils s)\<rparr>"
    by (auto simp: free_slot_def)
  then show ?thesis
  proof cases
    case full
    then have "open K E pathname oflags s = (- 1, s1\<lparr>errno := EBADF\<rparr>)"
      by (simp add: open_def nfd fileno_to_stream_minus1 free_file_descriptor_minus1 Let_def)
    with full show ?thesis by simp
  next
    case slot
    from slot(1) have i: "\<not> isatty (int i)" "i < length (iob s)" "iob s ! i = None"
      by (simp_all add: free_slot_not_tty)
    have st: "fileno_to_stream (int i) s1 = (Some a, s1)"
      using i by (simp add: slot(4) fileno_to_stream_valid)
    have ff: "fileno_to_fatfs (int i) s1 = (Some b, s1)"
      using i by (simp add: slot(4) fileno_to_fatfs_valid zero_FILE_def)
    have upd: "(iob s)[i := None] = iob s"
      using i by (metis list_update_id)
    have inmem: "Some a \<in> set (mem s)" "Some b \<in> set (mem s)"
      by (simp_all add: slot(2))
    show ?thesis
      using fail i upd inmem
      apply (simp add: open_def nfd slot(3) st ff Let_def split: prod.splits if_splits)
      apply (auto simp: slot(4) free_file_descriptor_valid zero_FILE_def bind_stream_def upd_stream_def)
      done
  qed
qed

lemma open_table_full:
  assumes "\<forall>i. \<not> free_slot s i"
  shows "open K E pathname oflags s = (- 1, s\<lparr>errno := EBADF\<rparr>)"
proof -
  from assms have "\<forall>i. \<not> free_slot (s\<lparr>errno := 0\<rparr>) i" by (simp add: free_slot_def)
  then have "new_file_descriptor (s\<lparr>errno := 0\<rparr>) = (- 1, s\<lparr>errno := ENFILE\<rparr>)"
    by (simp add: new_file_descriptor_full)
  then show ?thesis
    by (simp add: open_def fileno_to_stream_minus1 free_file_descriptor_minus1 Let_def)
qed

lemma open_slot:
  assumes "free_slot s i" and "\<forall>j<i. \<not> free_slot s j" and "mem s = Some a # Some b # rest"
    and "f_open E (world s) zero_FIL pathname (word_of_int (fatfs_modes_of K oflags AND 0xff)) =
           (res, w1, fil1)"
    and "f_lseek E w1 fil1 (f_size fil1) = (res2, w2, fil2)"
  shows "(res \<noteq> FR_OK \<longrightarrow>
            fst (open K E pathname oflags s) = - 1 \<and>
            errno (snd (open K E pathname oflags s)) = fatfs_to_errno res) \<and>
         (res = FR_OK \<and> oflags AND O_APPEND K \<noteq> 0 \<and> res2 \<noteq> FR_OK \<longrightarrow>
            fst (open K E pathname oflags s) = - 1 \<and>
            errno (snd (open K E pathname oflags s)) = fatfs_to_errno res2) \<and>
         (res = FR_OK \<and> (oflags AND O_APPEND K = 0 \<or> res2 = FR_OK) \<longrightarrow>
            fst (open K E pathname oflags s) = int i)"
proof -
  let ?s = "s\<lparr>errno := 0\<rparr>"
  let ?s1 = "s\<lparr>errno := 0, mem := rest, iob := (iob s)[i := Some a],
                  files := (files s)(a := zero_FILE\<lparr>udata := Some b\<rparr>),
                  fils := (fils s)(b := zero_FIL),
                  live_files := insert a (live_files s),
                  live_fils := insert b (live_fils s)\<rparr>"
  from assms(1,2) have fs: "free_slot ?s i" "\<forall>j<i. \<not> free_slot ?s j"
    by (simp_all add: free_slot_def)
  have "new_file_descriptor ?s = new_fd_at i ?s" using fs by (rule new_file_descriptor_at)
  then have nfd: "new_file_descriptor ?s = (int i, ?s1)"
    using assms(3) by (simp add: new_fd_at_cases)
  from assms(1) have i: "\<not> isatty (int i)" "i < length (iob s)" "iob s ! i = None"
    by (simp_all add: free_slot_not_tty)
  have st: "fileno_to_stream (int i) ?s1 = (Some a, ?s1)"
    using i by (simp add: fileno_to_stream_valid)
  have ff: "fileno_to_fatfs (int i) ?s1 = (Some b, ?s1)"
    using i by (simp add: fileno_to_fatfs_valid zero_FILE_def)
  show ?thesis
    using i assms(4,5)
    apply (simp add: open_def nfd st ff Let_def split: prod.splits)
    apply (auto simp: free_file_descriptor_valid zero_FILE_def)
    done
qed

text \<open>
  Claim C1. When \<^verbatim>\<open>open\<close> returns \<open>-1\<close>, the table \<^verbatim>\<open>__iob\<close> is as it was before the
  call and nothing that the call allocated is still allocated (with an allocator that only
  hands out unused addresses, the sets of allocated streams and engine objects are as
  before). \<^verbatim>\<open>open\<close> does return \<open>-1\<close> when the table has no free slot, when the
  engine's \<^verbatim>\<open>f_open\<close> fails and when the seek to the end of the file asked for by
  \<^verbatim>\<open>O_APPEND\<close> fails, with \<^verbatim>\<open>errno\<close> set to the translated engine code in the last
  two cases; otherwise, with the two objects allocated, it returns the slot's handle.
\<close>

theorem open_failure_rolls_back:
  "(fst (open K E pathname oflags s) = - 1 \<longrightarrow>
      iob (snd (open K E pathname oflags s)) = iob s \<and>
      live_files (snd (open K E pathname oflags s)) \<subseteq> live_files s \<and>
      live_fils (snd (open K E pathname oflags s)) \<subseteq> live_fils s \<and>
      live_bufs (snd (open K E pathname oflags s)) = live_bufs s \<and>
      ((\<forall>x. Some x \<in> set (mem s) \<longrightarrow> x \<notin> live_files s \<and> x \<notin> live_fils s) \<longrightarrow>
         live_files (snd (open K E pathname oflags s)) = live_files s \<and>
         live_fils (snd (open K E pathname oflags s)) = live_fils s)) \<and>
   ((\<forall>i. \<not> free_slot s i) \<longrightarrow> fst (open K E pathname oflags s) = - 1) \<and>
   (free_slot s i \<and> (\<forall>j<i. \<not> free_slot s j) \<and> mem s = Some a # Some b # rest \<and>
    f_open E (world s) zero_FIL pathname (word_of_int (fatfs_modes_of K oflags AND 0xff)) =
      (res, w1, fil1) \<and>
    f_lseek E w1 fil1 (f_size fil1) = (res2, w2, fil2) \<longrightarrow>
      (res \<noteq> FR_OK \<longrightarrow>
         fst (open K E pathname oflags s) = - 1 \<and>
         errno (snd (open K E pathname oflags s)) = fatfs_to_errno res) \<and>
      (res = FR_OK \<and> oflags AND O_APPEND K \<noteq> 0 \<and> res2 \<noteq> FR_OK \<longrightarrow>
         fst (open K E pathname oflags s) = - 1 \<and>
         errno (snd (open K E pathname oflags s)) = fatfs_to_errno res2) \<and>
      (res = FR_OK \<and> (oflags AND O_APPEND K = 0 \<or> res2 = FR_OK) \<longrightarrow>
         fst (open K E pathname oflags s) = int i))"
proof -
  have 1: "fst (open K E pathname oflags s) = - 1 \<longrightarrow>
      iob (snd (open K E pathname oflags s)) = iob s \<and>
      live_files (snd (open K E pathname oflags s)) \<subseteq> live_files s \<and>
      live_fils (snd (open K E pathname oflags s)) \<subseteq> live_fils s \<and>
      live_bufs (snd (open K E pathname oflags s)) = live_bufs s \<and>
      ((\<forall>x. Some x \<in> set (mem s) \<longrightarrow> x \<notin> live_files s \<and> x \<notin> live_fils s) \<longrightarrow>
         live_files (snd (open K E pathname oflags s)) = live_files s \<and>
         live_fils (snd (open K E pathname oflags s)) = live_fils s)"
    using open_rollback [of K E pathname oflags s] by blast
  have 2: "(\<forall>i. \<not> free_slot s i) \<longrightarrow> fst (open K E pathname oflags s) = - 1"
    by (simp add: open_table_full)
  have 3: "free_slot s i \<and> (\<forall>j<i. \<not> free_slot s j) \<and> mem s = Some a # Some b # rest \<and>
    f_open E (world s) zero_FIL pathname (word_of_int (fatfs_modes_of K oflags AND 0xff)) =
      (res, w1, fil1) \<and>
    f_lseek E w1 fil1 (f_size fil1) = (res2, w2, fil2) \<longrightarrow>
      (res \<noteq> FR_OK \<longrightarrow>
         fst (open K E pathname oflags s) = - 1 \<and>
         errno (snd (open K E pathname oflags s)) = fatfs_to_errno res) \<and>
      (res = FR_OK \<and> oflags AND O_APPEND K \<noteq> 0 \<and> res2 \<noteq> FR_OK \<longrightarrow>
         fst (open K E pathname oflags s) = - 1 \<and>
         errno (snd (open K E pathname oflags s)) = fatfs_to_errno res2) \<and>
      (res = FR_OK \<and> (oflags AND O_APPEND K = 0 \<or> res2 = FR_OK) \<longrightarrow>
         fst (open K E pathname oflags s) = int i)"
    using open_slot [of s i a b rest E pathname K oflags res w1 fil1 res2 w2 fil2] by blast
  from 1 2 3 show ?thesis by (intro conjI)
qed

lemma open_b_txt:
  "fst (open K0 ram_engine ''/b.txt'' (O_RDONLY K0) boot) = - 1 \<and>
   errno (snd (open K0 ram_engine ''/b.txt'' (O_RDONLY K0) boot)) = ENOENT"
  by (simp add: open_def table_defs fatfs_modes_of_def bind_stream_def upd_stream_def K0_def
      ram_defs state_defs FR_defs fatfs_to_errno_def errno_defs Let_def)

lemma open_a_txt: "open K0 ram_engine ''/a.txt'' (O_RDONLY K0) boot = (3, opened_at 0)"
  by (simp add: open_def new_file_descriptor_def new_fd_at_def safecalloc_FILE_def
      safecalloc_FIL_def fileno_to_stream_def fileno_to_fatfs_def MAX_FILES_def
      isatty_def fatfs_modes_of_def bind_stream_def upd_stream_def K0_def ram_defs state_defs
      FR_defs Let_def insert_commute)

theorem open_failure_rolls_back_witness:
  "fst (open K0 ram_engine ''/b.txt'' (O_RDONLY K0) boot) = - 1 \<and>
   errno (snd (open K0 ram_engine ''/b.txt'' (O_RDONLY K0) boot)) = ENOENT \<and>
   iob (snd (open K0 ram_engine ''/b.txt'' (O_RDONLY K0) boot)) =
     [Some 1, Some 2, Some 2, None, None, None] \<and>
   live_files (snd (open K0 ram_engine ''/b.txt'' (O_RDONLY K0) boot)) = {1, 2} \<and>
   live_fils (snd (open K0 ram_engine ''/b.txt'' (O_RDONLY K0) boot)) = {} \<and>
   fst (open K0 ram_engine ''/a.txt'' (O_RDONLY K0) full) = - 1 \<and>
   iob (snd (open K0 ram_engine ''/a.txt'' (O_RDONLY K0) full)) = iob full \<and>
   fst (open K0 broken_engine ''/a.txt'' (O_RDONLY K0) boot) = - 1 \<and>
   errno (snd (open K0 broken_engine ''/a.txt'' (O_RDONLY K0) boot)) = EIO \<and>
   iob (snd (open K0 broken_engine ''/a.txt'' (O_RDONLY K0) boot)) = iob boot"
proof -
  have fresh: "\<forall>x. Some x \<in> set (mem boot) \<longrightarrow> x \<notin> live_files boot \<and> x \<notin> live_fils boot"
    by (auto simp: boot_def)
  have f: "\<forall>i. \<not> free_slot full i"
    by (auto simp: free_slot_def full_def boot_def nth_Cons')
  have h: "free_slot boot 3 \<and> (\<forall>j<3. \<not> free_slot boot j) \<and> mem boot = Some 7 # Some 9 # [] \<and>
    f_open broken_engine (world boot) zero_FIL ''/a.txt''
      (word_of_int (fatfs_modes_of K0 (O_RDONLY K0) AND 0xff)) = (FR_DISK_ERR, ram0, zero_FIL) \<and>
    f_lseek broken_engine ram0 zero_FIL (f_size zero_FIL) = (FR_DISK_ERR, ram0, zero_FIL)"
    by (simp add: free_slot_def boot_def broken_engine_def)
  from open_failure_rolls_back [of K0 ram_engine "''/b.txt''" "O_RDONLY K0" boot] open_b_txt fresh
  have 1: "iob (snd (open K0 ram_engine ''/b.txt'' (O_RDONLY K0) boot)) = iob boot \<and>
     live_files (snd (open K0 ram_engine ''/b.txt'' (O_RDONLY K0) boot)) = live_files boot \<and>
     live_fils (snd (open K0 ram_engine ''/b.txt'' (O_RDONLY K0) boot)) = live_fils boot"
    by blast
  from open_failure_rolls_back [of K0 ram_engine "''/a.txt''" "O_RDONLY K0" full] f
  have 2: "fst (open K0 ram_engine ''/a.txt'' (O_RDONLY K0) full) = - 1 \<and>
     iob (snd (open K0 ram_engine ''/a.txt'' (O_RDONLY K0) full)) = iob full"
    by blast
  from open_failure_rolls_back [of K0 broken_engine "''/a.txt''" "O_RDONLY K0" boot 3 7 9 "[]"
      FR_DISK_ERR ram0 zero_FIL FR_DISK_ERR ram0 zero_FIL] h
  have 3: "fst (open K0 broken_engine ''/a.txt'' (O_RDONLY K0) boot) = - 1 \<and>
     errno (snd (open K0 broken_engine ''/a.txt'' (O_RDONLY K0) boot)) = fatfs_to_errno FR_DISK_ERR \<and>
     iob (snd (open K0 broken_engine ''/a.txt'' (O_RDONLY K0) boot)) = iob boot"
    by (simp add: FR_defs)
  from 1 2 3 open_b_txt show ?thesis
    by (simp add: boot_def fatfs_to_errno_def FR_defs errno_defs)
qed

section \<open>Line ends\<close>

lemma fatfs_getc_pushback_untouched:
  "unget (files (snd (fatfs_getc E stream s)) x) = unget (files s x) \<and>
   (SUNGET \<in> flags (files (snd (fatfs_getc E stream s)) x)) = (SUNGET \<in> flags (files s x))"
  by (simp add: fatfs_getc_def upd_stream_def Let_def split: option.splits prod.splits)

text \<open>
  Claim C4. On a stream bound to an engine object, let the engine's first read deliver
  one byte \<open>c\<close>. If \<open>c\<close> is not a carriage return, \<^verbatim>\<open>fatfs_getc\<close> returns \<open>c\<close>
  unchanged. If it is, \<^verbatim>\<open>fatfs_getc\<close> returns \<^verbatim>\<open>'\n'\<close>: with the engine as the second
  read leaves it when that read delivers \<^verbatim>\<open>'\n'\<close> (the byte is consumed) or delivers no
  byte (end of file), and with the engine as the seek back to the position remembered
  after the carriage return leaves it when the second read delivers any other byte. The
  pushback byte and the pushback flag of the stream are never changed.
\<close>

theorem fatfs_getc_line_ends:
  assumes "udata (files s a) = Some fh"
    and "f_read E (world s) (fils s fh) 1 = (res, data, w1, fil1)"
    and "f_read E w1 fil1 1 = (res2, data2, w2, fil2)"
    and "f_lseek E w2 fil2 (f_tell fil1) = (res3, w3, fil3)"
  shows
    "(res = FR_OK \<and> data = [c] \<and> c \<noteq> 0x0D \<longrightarrow>
        fatfs_getc E (Some a) s =
          (uint c, s\<lparr>errno := 0, world := w1, fils := (fils s)(fh := fil1)\<rparr>)) \<and>
     (res = FR_OK \<and> data = [0x0D] \<and> res2 = FR_OK \<and> data2 = [0x0A] \<longrightarrow>
        fatfs_getc E (Some a) s =
          (0x0A, s\<lparr>errno := 0, world := w2, fils := (fils s)(fh := fil2)\<rparr>)) \<and>
     (res = FR_OK \<and> data = [0x0D] \<and> (res2 \<noteq> FR_OK \<or> length data2 \<noteq> 1) \<longrightarrow>
        fatfs_getc E (Some a) s =
          (0x0A, s\<lparr>errno := 0, world := w2, fils := (fils s)(fh := fil2)\<rparr>)) \<and>
     (res = FR_OK \<and> data = [0x0D] \<and> res2 = FR_OK \<and> data2 = [d] \<and> d \<noteq> 0x0A \<longrightarrow>
        fatfs_getc E (Some a) s =
          (0x0A, s\<lparr>errno := 0, world := w3, fils := (fils s)(fh := fil3)\<rparr>)) \<and>
     unget (files (snd (fatfs_getc E (Some a) s)) a) = unget (files s a) \<and>
     (SUNGET \<in> flags (files (snd (fatfs_getc E (Some a) s)) a)) = (SUNGET \<in> flags (files s a))"
proof -
  have mask: "uint c AND 0xff = uint c"
  proof -
    have "uint c AND mask 8 = uint c"
      by (rule bit_eqI) (auto simp: bit_simps dest: bit_imp_le_length)
    then show ?thesis by (simp add: mask_eq_exp_minus_1)
  qed
  have cases: "(res = FR_OK \<and> data = [c] \<and> c \<noteq> 0x0D \<longrightarrow>
        fatfs_getc E (Some a) s =
          (uint c, s\<lparr>errno := 0, world := w1, fils := (fils s)(fh := fil1)\<rparr>)) \<and>
     (res = FR_OK \<and> data = [0x0D] \<and> res2 = FR_OK \<and> data2 = [0x0A] \<longrightarrow>
        fatfs_getc E (Some a) s =
          (0x0A, s\<lparr>errno := 0, world := w2, fils := (fils s)(fh := fil2)\<rparr>)) \<and>
     (res = FR_OK \<and> data = [0x0D] \<and> (res2 \<noteq> FR_OK \<or> length data2 \<noteq> 1) \<longrightarrow>
        fatfs_getc E (Some a) s =
          (0x0A, s\<lparr>errno := 0, world := w2, fils := (fils s)(fh := fil2)\<rparr>)) \<and>
     (res = FR_OK \<and> data = [0x0D] \<and> res2 = FR_OK \<and> data2 = [d] \<and> d \<noteq> 0x0A \<longrightarrow>
        fatfs_getc E (Some a) s =
          (0x0A, s\<lparr>errno := 0, world := w3, fils := (fils s)(fh := fil3)\<rparr>))"
    using assms mask by (auto simp: fatfs_getc_def Let_def)
  from cases fatfs_getc_pushback_untouched [of E "Some a" s a] show ?thesis
    by blast
qed

lemma ram_read_at:
  "f_read ram_engine ram0 \<lparr>fptr = 0, objsize = 7, obj = 0\<rparr> 1 =
     (FR_OK, [0x61], ram0, \<lparr>fptr = 1, objsize = 7, obj = 0\<rparr>)"
  "f_read ram_engine ram0 \<lparr>fptr = 1, objsize = 7, obj = 0\<rparr> 1 =
     (FR_OK, [0x0D], ram0, \<lparr>fptr = 2, objsize = 7, obj = 0\<rparr>)"
  "f_read ram_engine ram0 \<lparr>fptr = 2, objsize = 7, obj = 0\<rparr> 1 =
     (FR_OK, [0x0A], ram0, \<lparr>fptr = 3, objsize = 7, obj = 0\<rparr>)"
  "f_read ram_engine ram0 \<lparr>fptr = 3, objsize = 7, obj = 0\<rparr> 1 =
     (FR_OK, [0x62], ram0, \<lparr>fptr = 4, objsize = 7, obj = 0\<rparr>)"
  "f_read ram_engine ram0 \<lparr>fptr = 4, objsize = 7, obj = 0\<rparr> 1 =
     (FR_OK, [0x0D], ram0, \<lparr>fptr = 5, objsize = 7, obj = 0\<rparr>)"
  "f_read ram_engine ram0 \<lparr>fptr = 5, objsize = 7, obj = 0\<rparr> 1 =
     (FR_OK, [0x63], ram0, \<lparr>fptr = 6, objsize = 7, obj = 0\<rparr>)"
  "f_read ram_engine ram0 \<lparr>fptr = 6, objsize = 7, obj = 0\<rparr> 1 =
     (FR_OK, [0x0D], ram0, \<lparr>fptr = 7, objsize = 7, obj = 0\<rparr>)"
  "f_read ram_engine ram0 \<lparr>fptr = 7, objsize = 7, obj = 0\<rparr> 1 =
     (FR_OK, [], ram0, \<lparr>fptr = 7, objsize = 7, obj = 0\<rparr>)"
  by (simp_all add: ram_defs Let_def)

lemma opened_at_fields:
  "udata (files (opened_at p) 7) = Some 9"
  "world (opened_at p) = ram0"
  "fils (opened_at p) 9 = \<lparr>fptr = p, objsize = 7, obj = 0\<rparr>"
  "iob (opened_at p) = [Some 1, Some 2, Some 2, Some 7, None, None]"
  "flags (files (opened_at p) 7) = {SRD}"
  "unget (files (opened_at p) 7) = 0"
  by (simp_all add: state_defs)

theorem fatfs_getc_line_ends_witness:
  "fst (fatfs_getc ram_engine (Some 7) (opened_at 0)) = 0x61 \<and>
   fptr (fils (snd (fatfs_getc ram_engine (Some 7) (opened_at 0))) 9) = 1 \<and>
   fst (fatfs_getc ram_engine (Some 7) (opened_at 1)) = 0x0A \<and>
   fptr (fils (snd (fatfs_getc ram_engine (Some 7) (opened_at 1))) 9) = 3 \<and>
   fst (fatfs_getc ram_engine (Some 7) (opened_at 4)) = 0x0A \<and>
   fptr (fils (snd (fatfs_getc ram_engine (Some 7) (opened_at 4))) 9) = 5 \<and>
   fst (fatfs_getc ram_engine (Some 7) (opened_at 6)) = 0x0A \<and>
   fptr (fils (snd (fatfs_getc ram_engine (Some 7) (opened_at 6))) 9) = 7 \<and>
   SUNGET \<notin> flags (files (snd (fatfs_getc ram_engine (Some 7) (opened_at 4))) 7)"
proof -
  note f = opened_at_fields
  have u: "\<And>p. udata (files (opened_at p) 7) = Some 9" by (simp add: f)
  have r: "\<And>p x. f_read ram_engine ram0 \<lparr>fptr = p, objsize = 7, obj = 0\<rparr> 1 = x \<Longrightarrow>
     f_read ram_engine (world (opened_at p)) (fils (opened_at p) 9) 1 = x"
    by (simp add: f)
  have t: "\<And>p q. q \<le> 7 \<Longrightarrow>
     f_lseek ram_engine ram0 \<lparr>fptr = p, objsize = 7, obj = 0\<rparr>
       (f_tell \<lparr>fptr = q, objsize = 7, obj = 0\<rparr>) =
     (FR_OK, ram0, \<lparr>fptr = q, objsize = 7, obj = 0\<rparr>)"
    by (simp add: f_tell_def ram_defs)
  have le: "(1 :: 32 word) \<le> 7" "(2 :: 32 word) \<le> 7" "(5 :: 32 word) \<le> 7"
    "(7 :: 32 word) \<le> 7"
    by simp_all
  from fatfs_getc_line_ends [OF u r [OF ram_read_at(1)] ram_read_at(2) t [OF le(1)],
      of "0x61" 0]
  have a: "fatfs_getc ram_engine (Some 7) (opened_at 0) =
      (uint (0x61 :: byte), (opened_at 0)\<lparr>errno := 0, world := ram0,
         fils := (fils (opened_at 0))(9 := \<lparr>fptr = 1, objsize = 7, obj = 0\<rparr>)\<rparr>)"
    by simp
  from fatfs_getc_line_ends [OF u r [OF ram_read_at(2)] ram_read_at(3) t [OF le(2)],
      of 0 0]
  have b: "fatfs_getc ram_engine (Some 7) (opened_at 1) =
      (0x0A, (opened_at 1)\<lparr>errno := 0, world := ram0,
         fils := (fils (opened_at 1))(9 := \<lparr>fptr = 3, objsize = 7, obj = 0\<rparr>)\<rparr>)"
    by simp
  from fatfs_getc_line_ends [OF u r [OF ram_read_at(5)] ram_read_at(6) t [OF le(3)],
      of 0 "0x63"]
  have c: "fatfs_getc ram_engine (Some 7) (opened_at 4) =
      (0x0A, (opened_at 4)\<lparr>errno := 0, world := ram0,
         fils := (fils (opened_at 4))(9 := \<lparr>fptr = 5, objsize = 7, obj = 0\<rparr>)\<rparr>) \<and>
      (SUNGET \<in> flags (files (snd (fatfs_getc ram_engine (Some 7) (opened_at 4))) 7)) =
      (SUNGET \<in> flags (files (opened_at 4) 7))"
    by simp
  from fatfs_getc_line_ends [OF u r [OF ram_read_at(7)] ram_read_at(8) t [OF le(4)],
      of 0 0]
  have d: "fatfs_getc ram_engine (Some 7) (opened_at 6) =
      (0x0A, (opened_at 6)\<lparr>errno := 0, world := ram0,
         fils := (fils (opened_at 6))(9 := \<lparr>fptr = 7, objsize = 7, obj = 0\<rparr>)\<rparr>)"
    by simp
  from a b c d show ?thesis by (simp add: f)
qed

section \<open>lseek\<close>

text \<open>
  Claim C6. For a handle that is not a console handle and is bound to an engine object,
  \<^verbatim>\<open>lseek\<close> asks the engine to seek to \<open>target\<close>: the offset plus the file size for
  \<^verbatim>\<open>SEEK_END\<close>, the offset plus the current file position for \<^verbatim>\<open>SEEK_CUR\<close>, the offset
  itself otherwise. It returns \<open>-1\<close> when the engine reports an error (with \<^verbatim>\<open>errno\<close>
  translated), and also when the engine reports success and the position it leaves
  differs from \<open>target\<close>; otherwise it returns the new position.
\<close>

theorem lseek_resolves_whence:
  assumes "\<not> isatty fd" and "0 \<le> fd" and "fd < MAX_FILES s"
    and "iob s ! nat fd = Some a" and "udata (files s a) = Some fh"
    and "target = (if whence = SEEK_END K then position + f_size (fils s fh)
                   else if whence = SEEK_CUR K then position + fptr (fils s fh)
                   else position)"
    and "f_lseek E (world s) (fils s fh) target = (res, w1, fil1)"
  shows "fst (lseek K E fd position whence s) =
           (if res \<noteq> FR_OK then - 1 else if f_tell fil1 \<noteq> target then - 1 else f_tell fil1) \<and>
         world (snd (lseek K E fd position whence s)) = w1 \<and>
         fils (snd (lseek K E fd position whence s)) = (fils s)(fh := fil1) \<and>
         errno (snd (lseek K E fd position whence s)) =
           (if res \<noteq> FR_OK then fatfs_to_errno res else 0)"
proof -
  let ?s = "s\<lparr>errno := 0\<rparr>"
  from assms have len: "fd < int (length (iob s))" by (simp add: MAX_FILES_def)
  have st: "fileno_to_stream fd ?s = (Some a, ?s)"
    using assms len by (simp add: fileno_to_stream_valid)
  have ff: "fileno_to_fatfs fd ?s = (Some fh, ?s)"
    using assms len by (simp add: fileno_to_fatfs_valid)
  show ?thesis
    using assms(1,6,7)
    by (auto simp: lseek_def st ff Let_def upd_stream_def f_tell_def f_size_def FR_OK_def)
qed

theorem lseek_resolves_whence_witness:
  "fst (lseek K0 ram_engine 3 (- 2) (SEEK_END K0) (opened_at 0)) = 5 \<and>
   fptr (fils (snd (lseek K0 ram_engine 3 (- 2) (SEEK_END K0) (opened_at 0))) 9) = 5 \<and>
   fst (lseek K0 ram_engine 3 2 (SEEK_CUR K0) (opened_at 1)) = 3 \<and>
   fst (lseek K0 ram_engine 3 2 0 (opened_at 1)) = 2 \<and>
   fst (lseek K0 ram_engine 3 10 0 (opened_at 1)) = - 1 \<and>
   fptr (fils (snd (lseek K0 ram_engine 3 10 0 (opened_at 1))) 9) = 7 \<and>
   errno (snd (lseek K0 ram_engine 3 10 0 (opened_at 1))) = 0"
proof -
  have h: "\<And>p. \<not> isatty 3 \<and> (0::int) \<le> 3 \<and> 3 < MAX_FILES (opened_at p) \<and>
    iob (opened_at p) ! nat 3 = Some 7 \<and> udata (files (opened_at p) 7) = Some 9"
    by (simp add: isatty_def MAX_FILES_def state_defs)
  have l: "\<And>p q. f_lseek ram_engine (world (opened_at p)) (fils (opened_at p) 9) q =
      (FR_OK, ram0, \<lparr>fptr = (if q \<le> 7 then q else 7), objsize = 7, obj = 0\<rparr>)"
    by (simp add: opened_at_fields ram_defs)
  have t1: "(5 :: 32 word) = (if SEEK_END K0 = SEEK_END K0 then - 2 + f_size (fils (opened_at 0) 9)
              else if SEEK_END K0 = SEEK_CUR K0 then - 2 + fptr (fils (opened_at 0) 9) else - 2)"
    by (simp add: f_size_def opened_at_fields)
  have t2: "(3 :: 32 word) = (if SEEK_CUR K0 = SEEK_END K0 then 2 + f_size (fils (opened_at 1) 9)
              else if SEEK_CUR K0 = SEEK_CUR K0 then 2 + fptr (fils (opened_at 1) 9) else 2)"
    by (simp add: f_size_def opened_at_fields K0_def)
  have t3: "(2 :: 32 word) = (if 0 = SEEK_END K0 then 2 + f_size (fils (opened_at 1) 9)
              else if 0 = SEEK_CUR K0 then 2 + fptr (fils (opened_at 1) 9) else 2)"
    by (simp add: K0_def)
  have t4: "(10 :: 32 word) = (if 0 = SEEK_END K0 then 10 + f_size (fils (opened_at 1) 9)
              else if 0 = SEEK_CUR K0 then 10 + fptr (fils (opened_at 1) 9) else 10)"
    by (simp add: K0_def)
  from h [of 0] have h0: "\<not> isatty 3" "(0::int) \<le> 3" "3 < MAX_FILES (opened_at 0)"
    "iob (opened_at 0) ! nat 3 = Some 7" "udata (files (opened_at 0) 7) = Some 9" by blast+
  from h [of 1] have h1: "\<not> isatty 3" "(0::int) \<le> 3" "3 < MAX_FILES (opened_at 1)"
    "iob (opened_at 1) ! nat 3 = Some 7" "udata (files (opened_at 1) 7) = Some 9" by blast+
  from lseek_resolves_whence [OF h0 t1 l] lseek_resolves_whence [OF h1 t2 l]
    lseek_resolves_whence [OF h1 t3 l] lseek_resolves_whence [OF h1 t4 l]
  show ?thesis
    by (simp add: f_tell_def FR_defs)
qed

text \<open>
  Claim C5 says that a successful \<^verbatim>\<open>lseek\<close> leaves no pushback pending. The code does
  the opposite: for every handle that passes the checks of \<^verbatim>\<open>lseek\<close>, the statement
  \<^verbatim>\<open>stream->flags |= __SUNGET\<close> sets the pending flag, whatever the seek does afterwards,
  and leaves the pushback byte as it was; on a readable stream the next \<^verbatim>\<open>fgetc\<close> then
  returns that stale byte and reads nothing at the new position.
\<close>

theorem lseek_leaves_pushback_pending:
  assumes "\<not> isatty fd" and "0 \<le> fd" and "fd < MAX_FILES s"
    and "iob s ! nat fd = Some a" and "udata (files s a) = Some fh"
  shows "SUNGET \<in> flags (files (snd (lseek K E fd position whence s)) a) \<and>
         unget (files (snd (lseek K E fd position whence s)) a) = unget (files s a) \<and>
         (SRD \<in> flags (files s a) \<longrightarrow>
            map_option fst (fgetc E (Some a) (snd (lseek K E fd position whence s))) =
              Some (uint (unget (files s a))))"
proof -
  let ?s = "s\<lparr>errno := 0\<rparr>"
  from assms have len: "fd < int (length (iob s))" by (simp add: MAX_FILES_def)
  have st: "fileno_to_stream fd ?s = (Some a, ?s)"
    using assms len by (simp add: fileno_to_stream_valid)
  have ff: "fileno_to_fatfs fd ?s = (Some fh, ?s)"
    using assms len by (simp add: fileno_to_fatfs_valid)
  have fl: "files (snd (lseek K E fd position whence s)) =
            (files s)(a := (files s a)\<lparr>flags := insert SUNGET (flags (files s a))\<rparr>)"
    using assms(1)
    by (simp add: lseek_def st ff Let_def upd_stream_def split: prod.splits)
  show ?thesis
    by (simp add: fl fgetc_def)
qed

theorem lseek_leaves_pushback_pending_witness:
  "fst (lseek K0 ram_engine 3 3 0 (opened_at 0)) = 3 \<and>
   fptr (fils (snd (lseek K0 ram_engine 3 3 0 (opened_at 0))) 9) = 3 \<and>
   SUNGET \<notin> flags (files (opened_at 0) 7) \<and>
   SUNGET \<in> flags (files (snd (lseek K0 ram_engine 3 3 0 (opened_at 0))) 7) \<and>
   map_option fst (fgetc ram_engine (Some 7) (snd (lseek K0 ram_engine 3 3 0 (opened_at 0)))) =
     Some 0 \<and>
   map_option fst (fgetc ram_engine (Some 7) (opened_at 3)) = Some 0x62"
proof -
  have h: "\<not> isatty 3" "(0::int) \<le> 3" "3 < MAX_FILES (opened_at 0)"
    "iob (opened_at 0) ! nat 3 = Some 7" "udata (files (opened_at 0) 7) = Some 9"
    by (simp_all add: isatty_def MAX_FILES_def state_defs)
  have r: "fst (lseek K0 ram_engine 3 3 0 (opened_at 0)) = 3 \<and>
   fptr (fils (snd (lseek K0 ram_engine 3 3 0 (opened_at 0))) 9) = 3 \<and>
   map_option fst (fgetc ram_engine (Some 7) (opened_at 3)) = Some 0x62"
    by (simp add: lseek_def fgetc_def call_get_def fatfs_getc_def upd_stream_def table_defs
      K0_def ram_defs state_defs FR_defs f_tell_def f_size_def Let_def)
  from lseek_leaves_pushback_pending [OF h, of K0 ram_engine 3 0] r
  show ?thesis by (simp add: opened_at_fields)
qed

section \<open>Pushback\<close>

lemma ungetc_Some:
  "ungetc c (Some a) s =
    (if \<not> isatty (fileno_loop (iob s) a 0) then (EOF, s)
     else if c = EOF then (EOF, s)
     else if SUNGET \<in> flags (files s a) then (EOF, s)
     else if SRD \<notin> flags (files s a) then (EOF, s)
     else (c, upd_stream a (\<lambda>f. f\<lparr>flags := insert SUNGET (flags f) - {SEOF},
                                     unget := word_of_int c, len := len f - 1\<rparr>) s))"
  by (simp add: ungetc_def fileno_def)

lemma fgetc_pending:
  "SRD \<in> flags (files s a) \<Longrightarrow> SUNGET \<in> flags (files s a) \<Longrightarrow>
   fgetc E (Some a) s =
     Some (uint (unget (files s a)),
           upd_stream a (\<lambda>f. f\<lparr>flags := flags f - {SUNGET}, len := len f + 1\<rparr>) s)"
  by (simp add: fgetc_def)

text \<open>
  What \<^verbatim>\<open>ungetc\<close> does on every stream. It returns \<^verbatim>\<open>EOF\<close>, with no change to the
  state, exactly when the first slot that holds the stream is not 0, 1 or 2, or \<open>c\<close> is
  the end-of-file sentinel, or a pushback is already pending, or the stream is not
  readable; otherwise it stores \<open>c\<close> in the pushback slot, sets the pending flag, clears
  the end-of-file flag, decrements the read count and returns \<open>c\<close>, and the next
  \<^verbatim>\<open>fgetc\<close> gives the stored byte back.
\<close>

lemma ungetc_cases:
  "ungetc c None s = (EOF, s\<lparr>errno := EBADF\<rparr>) \<and>
   ((fst (ungetc c (Some a) s) = EOF) =
      (\<not> isatty (fileno_loop (iob s) a 0) \<or> c = EOF \<or> SUNGET \<in> flags (files s a) \<or>
       SRD \<notin> flags (files s a))) \<and>
   (fst (ungetc c (Some a) s) = EOF \<longrightarrow> snd (ungetc c (Some a) s) = s) \<and>
   (fst (ungetc c (Some a) s) \<noteq> EOF \<longrightarrow>
      ungetc c (Some a) s =
        (c, upd_stream a (\<lambda>f. f\<lparr>flags := insert SUNGET (flags f) - {SEOF},
                                 unget := word_of_int c, len := len f - 1\<rparr>) s) \<and>
      (0 \<le> c \<and> c < 256 \<longrightarrow>
         fgetc E (Some a) (snd (ungetc c (Some a) s)) =
           Some (c, upd_stream a (\<lambda>f. f\<lparr>unget := word_of_int c,
                                          flags := flags f - {SEOF}\<rparr>) s)))"
proof (intro conjI impI)
  show "ungetc c None s = (EOF, s\<lparr>errno := EBADF\<rparr>)"
    by (simp add: ungetc_def fileno_def isatty_def)
next
  show "(fst (ungetc c (Some a) s) = EOF) =
      (\<not> isatty (fileno_loop (iob s) a 0) \<or> c = EOF \<or> SUNGET \<in> flags (files s a) \<or>
       SRD \<notin> flags (files s a))"
    by (simp add: ungetc_Some)
next
  assume "fst (ungetc c (Some a) s) = EOF"
  then show "snd (ungetc c (Some a) s) = s"
    by (simp add: ungetc_Some split: if_splits)
next
  assume ok: "fst (ungetc c (Some a) s) \<noteq> EOF"
  then show "ungetc c (Some a) s =
        (c, upd_stream a (\<lambda>f. f\<lparr>flags := insert SUNGET (flags f) - {SEOF},
                                 unget := word_of_int c, len := len f - 1\<rparr>) s)"
    by (simp add: ungetc_Some split: if_splits)
next
  assume ok: "fst (ungetc c (Some a) s) \<noteq> EOF" and byte: "0 \<le> c \<and> c < 256"
  let ?s1 = "upd_stream a (\<lambda>f. f\<lparr>flags := insert SUNGET (flags f) - {SEOF},
                                 unget := word_of_int c, len := len f - 1\<rparr>) s"
  from ok have cond: "SUNGET \<notin> flags (files s a)" "SRD \<in> flags (files s a)"
    and eq: "snd (ungetc c (Some a) s) = ?s1"
    by (simp_all add: ungetc_Some split: if_splits)
  have rd: "SRD \<in> flags (files ?s1 a)" and pend: "SUNGET \<in> flags (files ?s1 a)"
    using cond by (simp_all add: upd_stream_def)
  have val: "uint (unget (files ?s1 a)) = c"
    using byte by (simp add: upd_stream_def uint_word_of_int)
  have fl: "insert SUNGET (flags (files s a)) - {SEOF} - {SUNGET} = flags (files s a) - {SEOF}"
    using cond by auto
  have st: "upd_stream a (\<lambda>f. f\<lparr>flags := flags f - {SUNGET}, len := len f + 1\<rparr>) ?s1 =
            upd_stream a (\<lambda>f. f\<lparr>unget := word_of_int c, flags := flags f - {SEOF}\<rparr>) s"
    using fl by (simp add: upd_stream_def)
  show "fgetc E (Some a) (snd (ungetc c (Some a) s)) =
           Some (c, upd_stream a (\<lambda>f. f\<lparr>unget := word_of_int c,
                                          flags := flags f - {SEOF}\<rparr>) s)"
    unfolding eq fgetc_pending [OF rd pend] val st ..
qed

text \<open>
  Claim C7 says that \<^verbatim>\<open>ungetc\<close> is rejected exactly when a pushback is pending, the
  stream is not readable or the byte is the end-of-file sentinel. The code rejects more:
  its first statement, \<^verbatim>\<open>if(!isatty(fd)) return(EOF)\<close>, sends back every stream whose
  handle is not 0, 1 or 2, whatever the byte and the flags of the stream, and changes
  nothing. So no byte can be pushed back on a FatFs file stream, which the comment above
  \<^verbatim>\<open>ungetc\<close> ("Un-Get byte from a TTY device or FatFs file stream") says it can.
\<close>

theorem ungetc_rejects_file_streams:
  assumes "\<not> isatty (fst (fileno (Some a) s))"
  shows "ungetc c (Some a) s = (EOF, s)"
  using assms by (simp add: ungetc_def fileno_def)

theorem ungetc_rejects_file_streams_witness:
  "open K0 ram_engine ''/a.txt'' (O_RDONLY K0) boot = (3, opened_at 0) \<and>
   fst (fileno (Some 7) (opened_at 0)) = 3 \<and>
   SRD \<in> flags (files (opened_at 0) 7) \<and>
   SUNGET \<notin> flags (files (opened_at 0) 7) \<and>
   (0x41 :: int) \<noteq> EOF \<and>
   ungetc 0x41 (Some 7) (opened_at 0) = (EOF, opened_at 0)"
proof -
  have fd: "fst (fileno (Some 7) (opened_at 0)) = 3"
    by (simp add: fileno_def state_defs)
  then have h: "\<not> isatty (fst (fileno (Some 7) (opened_at 0)))"
    by (simp add: isatty_def)
  from ungetc_rejects_file_streams [OF h, of "0x41"] fd open_a_txt
  show ?thesis by (simp add: EOF_def opened_at_fields)
qed

section \<open>read\<close>

lemma stdio_errno:
  "stdin (s\<lparr>errno := e\<rparr>) = stdin s" "stdout (s\<lparr>errno := e\<rparr>) = stdout s"
  "stderr (s\<lparr>errno := e\<rparr>) = stderr s"
  by (simp_all add: stdin_def stdout_def stderr_def slot_def)

lemma read_console_out:
  assumes st: "fileno_to_stream fd (s\<lparr>errno := 0\<rparr>) = (Some a, s1)"
    and ni: "stdin s1 \<noteq> Some a" and out: "stdout s1 = Some a \<or> stderr s1 = Some a"
  shows "read E fd buf0 count s = Some (- 1, buf0[0 := 0], s1)"
proof -
  from ni have ni': "(Some a = stdin s1) = False" by auto
  from out have out': "(Some a = stdout s1 \<or> Some a = stderr s1) = True" by auto
  show ?thesis
    unfolding read_def Let_def st prod.case ni' out' by simp
qed

lemma read_null:
  assumes st: "fileno_to_stream fd (s\<lparr>errno := 0\<rparr>) = (None, s1)"
    and ni: "stdin s1 \<noteq> None"
    and ff: "fileno_to_fatfs fd s1 = (None, s2)"
  shows "read E fd buf0 count s =
           Some (- 1, buf0[0 := 0],
                 if stdout s1 = None \<or> stderr s1 = None then s1 else s2\<lparr>errno := EBADF\<rparr>)"
proof -
  from ni have ni': "(None = stdin s1) = False" by auto
  have out': "(None = stdout s1 \<or> None = stderr s1) = (stdout s1 = None \<or> stderr s1 = None)"
    by auto
  show ?thesis
    unfolding read_def Let_def st prod.case ni' out' ff by simp
qed

lemma read_file:
  assumes st: "fileno_to_stream fd (s\<lparr>errno := 0\<rparr>) = (Some a, s1)"
    and ni: "stdin s1 \<noteq> Some a" and no: "stdout s1 \<noteq> Some a" and ne: "stderr s1 \<noteq> Some a"
    and ff: "fileno_to_fatfs fd s1 = (Some fh, s2)"
    and rd: "f_read E (world s2) (fils s2 fh) count = (res, data, w1, fil1)"
  shows "read E fd buf0 count s =
     (if res \<noteq> FR_OK then
        Some (- 1, store_bytes data (buf0[0 := 0]),
              s2\<lparr>world := w1, fils := (fils s2)(fh := fil1), errno := fatfs_to_errno res\<rparr>)
      else
        Some (int (length data), store_bytes data (buf0[0 := 0]),
              s2\<lparr>world := w1, fils := (fils s2)(fh := fil1)\<rparr>))"
proof -
  from ni have ni': "(Some a = stdin s1) = False" by auto
  from no ne have out': "(Some a = stdout s1 \<or> Some a = stderr s1) = False" by auto
  show ?thesis
    unfolding read_def Let_def st prod.case ni' out' ff by (simp add: rd)
qed

text \<open>
  Claim C10. \<^verbatim>\<open>read\<close> stores a zero byte in \<^verbatim>\<open>buf[0]\<close> before anything else: the
  outcome of a call is the outcome of the same call on the buffer with its first byte
  zeroed. A read on an invalid handle (with a console input registered) and a read on a
  console output handle return \<open>-1\<close> and leave the buffer with its first byte zeroed
  and the rest unchanged; a read that the engine fails returns \<open>-1\<close> and leaves what the
  engine stored over that buffer, so a zero first byte when the engine stored nothing.
\<close>

theorem read_zeroes_first_byte:
  "read E fd buf0 count s = read E fd (buf0[0 := 0]) count s \<and>
   ((fd < 0 \<or> MAX_FILES s \<le> fd \<or> iob s ! nat fd = None) \<and> stdin s \<noteq> None \<longrightarrow>
      read E fd buf0 count s = Some (- 1, buf0[0 := 0], s\<lparr>errno := EBADF\<rparr>)) \<and>
   (0 \<le> fd \<and> fd < MAX_FILES s \<and> iob s ! nat fd = Some a \<and> stdin s \<noteq> Some a \<and>
    (stdout s = Some a \<or> stderr s = Some a) \<longrightarrow>
      read E fd buf0 count s = Some (- 1, buf0[0 := 0], s\<lparr>errno := 0\<rparr>)) \<and>
   (\<not> isatty fd \<and> 0 \<le> fd \<and> fd < MAX_FILES s \<and> iob s ! nat fd = Some a \<and>
    stdin s \<noteq> Some a \<and> stdout s \<noteq> Some a \<and> stderr s \<noteq> Some a \<and>
    udata (files s a) = Some fh \<and>
    f_read E (world s) (fils s fh) count = (res, data, w1, fil1) \<and> res \<noteq> FR_OK \<longrightarrow>
      read E fd buf0 count s =
        Some (- 1, store_bytes data (buf0[0 := 0]),
              s\<lparr>errno := fatfs_to_errno res, world := w1, fils := (fils s)(fh := fil1)\<rparr>)) \<and>
   (buf0 \<noteq> [] \<longrightarrow> (buf0[0 := 0]) ! 0 = 0 \<and> store_bytes [] (buf0[0 := 0]) ! 0 = 0)"
proof (intro conjI impI)
  show "read E fd buf0 count s = read E fd (buf0[0 := 0]) count s"
    by (simp add: read_def)
next
  assume a: "(fd < 0 \<or> MAX_FILES s \<le> fd \<or> iob s ! nat fd = None) \<and> stdin s \<noteq> None"
  then have st: "fileno_to_stream fd (s\<lparr>errno := 0\<rparr>) = (None, s\<lparr>errno := EBADF\<rparr>)"
    by (auto simp: fileno_to_stream_def MAX_FILES_def)
  have ff: "fileno_to_fatfs fd (s\<lparr>errno := EBADF\<rparr>) = (None, s\<lparr>errno := EBADF\<rparr>)"
    using a by (auto simp: fileno_to_fatfs_def fileno_to_stream_def MAX_FILES_def)
  from a have ni: "stdin (s\<lparr>errno := EBADF\<rparr>) \<noteq> None" by (simp add: stdio_errno)
  show "read E fd buf0 count s = Some (- 1, buf0[0 := 0], s\<lparr>errno := EBADF\<rparr>)"
    by (simp add: read_null [OF st ni ff])
next
  assume a: "0 \<le> fd \<and> fd < MAX_FILES s \<and> iob s ! nat fd = Some a \<and> stdin s \<noteq> Some a \<and>
    (stdout s = Some a \<or> stderr s = Some a)"
  then have st: "fileno_to_stream fd (s\<lparr>errno := 0\<rparr>) = (Some a, s\<lparr>errno := 0\<rparr>)"
    by (simp add: fileno_to_stream_valid MAX_FILES_def)
  from a have ni: "stdin (s\<lparr>errno := 0\<rparr>) \<noteq> Some a"
    and out: "stdout (s\<lparr>errno := 0\<rparr>) = Some a \<or> stderr (s\<lparr>errno := 0\<rparr>) = Some a"
    by (simp_all add: stdio_errno)
  show "read E fd buf0 count s = Some (- 1, buf0[0 := 0], s\<lparr>errno := 0\<rparr>)"
    by (rule read_console_out [OF st ni out])
next
  assume a: "\<not> isatty fd \<and> 0 \<le> fd \<and> fd < MAX_FILES s \<and> iob s ! nat fd = Some a \<and>
    stdin s \<noteq> Some a \<and> stdout s \<noteq> Some a \<and> stderr s \<noteq> Some a \<and>
    udata (files s a) = Some fh \<and>
    f_read E (world s) (fils s fh) count = (res, data, w1, fil1) \<and> res \<noteq> FR_OK"
  then have st: "fileno_to_stream fd (s\<lparr>errno := 0\<rparr>) = (Some a, s\<lparr>errno := 0\<rparr>)"
    by (simp add: fileno_to_stream_valid MAX_FILES_def)
  have ff: "fileno_to_fatfs fd (s\<lparr>errno := 0\<rparr>) = (Some fh, s\<lparr>errno := 0\<rparr>)"
    using a by (simp add: fileno_to_fatfs_valid MAX_FILES_def)
  from a have ni: "stdin (s\<lparr>errno := 0\<rparr>) \<noteq> Some a"
    and no: "stdout (s\<lparr>errno := 0\<rparr>) \<noteq> Some a" and ne: "stderr (s\<lparr>errno := 0\<rparr>) \<noteq> Some a"
    by (simp_all add: stdio_errno)
  from a have rd: "f_read E (world (s\<lparr>errno := 0\<rparr>)) (fils (s\<lparr>errno := 0\<rparr>) fh) count =
      (res, data, w1, fil1)" by simp
  from a show "read E fd buf0 count s =
        Some (- 1, store_bytes data (buf0[0 := 0]),
              s\<lparr>errno := fatfs_to_errno res, world := w1, fils := (fils s)(fh := fil1)\<rparr>)"
    by (simp add: read_file [OF st ni no ne ff rd])
next
  assume "buf0 \<noteq> []"
  then show "(buf0[0 := 0]) ! 0 = 0" by simp
next
  assume "buf0 \<noteq> []"
  then show "store_bytes [] (buf0[0 := 0]) ! 0 = 0" by (simp add: store_bytes_def)
qed

theorem read_zeroes_first_byte_witness:
  "read ram_engine 9 [1, 2, 3] 3 boot = Some (- 1, [0, 2, 3], boot\<lparr>errno := EBADF\<rparr>) \<and>
   read ram_engine 1 [1, 2, 3] 3 boot = Some (- 1, [0, 2, 3], boot\<lparr>errno := 0\<rparr>) \<and>
   map_option (\<lambda>r. (fst r, fst (snd r))) (read broken_engine 3 [1, 2, 3] 3 (opened_at 0)) =
     Some (- 1, [0, 2, 3]) \<and>
   map_option (\<lambda>r. (fst r, fst (snd r))) (read ram_engine 3 [1, 2, 3] 0 (opened_at 0)) =
     Some (0, [0, 2, 3])"
proof -
  have a: "((9::int) < 0 \<or> MAX_FILES boot \<le> 9 \<or> iob boot ! nat 9 = None) \<and> stdin boot \<noteq> None"
    by (simp add: MAX_FILES_def stdin_def slot_def state_defs)
  have b: "(0::int) \<le> 1 \<and> 1 < MAX_FILES boot \<and> iob boot ! nat 1 = Some 2 \<and>
    stdin boot \<noteq> Some 2 \<and> (stdout boot = Some 2 \<or> stderr boot = Some 2)"
    by (simp add: MAX_FILES_def stdin_def stdout_def stderr_def slot_def state_defs)
  have c: "\<not> isatty 3 \<and> (0::int) \<le> 3 \<and> 3 < MAX_FILES (opened_at 0) \<and>
    iob (opened_at 0) ! nat 3 = Some 7 \<and>
    stdin (opened_at 0) \<noteq> Some 7 \<and> stdout (opened_at 0) \<noteq> Some 7 \<and>
    stderr (opened_at 0) \<noteq> Some 7 \<and> udata (files (opened_at 0) 7) = Some 9 \<and>
    f_read broken_engine (world (opened_at 0)) (fils (opened_at 0) 9) 3 =
      (FR_DISK_ERR, [], ram0, fils (opened_at 0) 9) \<and> FR_DISK_ERR \<noteq> FR_OK"
    by (simp add: isatty_def MAX_FILES_def stdin_def stdout_def stderr_def slot_def state_defs
        ram_defs FR_defs)
  have d: "map_option (\<lambda>r. (fst r, fst (snd r))) (read ram_engine 3 [1, 2, 3] 0 (opened_at 0)) =
     Some (0, [0, 2, 3])"
    by (simp add: read_def table_defs stdin_def stdout_def stderr_def slot_def store_bytes_def
        ram_defs state_defs FR_defs Let_def)
  from read_zeroes_first_byte [of ram_engine 9 "[1, 2, 3]" 3 boot] a
  have 1: "read ram_engine 9 [1, 2, 3] 3 boot =
      Some (- 1, [1, 2, 3][0 := 0], boot\<lparr>errno := EBADF\<rparr>)"
    by blast
  from read_zeroes_first_byte [of ram_engine 1 "[1, 2, 3]" 3 boot 2] b
  have 2: "read ram_engine 1 [1, 2, 3] 3 boot =
      Some (- 1, [1, 2, 3][0 := 0], boot\<lparr>errno := 0\<rparr>)"
    by blast
  from read_zeroes_first_byte [of broken_engine 3 "[1, 2, 3]" 3 "opened_at 0" 7 9 FR_DISK_ERR
      "[]" ram0 "fils (opened_at 0) 9"] c
  have 3: "read broken_engine 3 [1, 2, 3] 3 (opened_at 0) =
        Some (- 1, store_bytes [] ([1, 2, 3][0 := 0]),
              (opened_at 0)\<lparr>errno := fatfs_to_errno FR_DISK_ERR, world := ram0,
                 fils := (fils (opened_at 0))(9 := fils (opened_at 0) 9)\<rparr>)"
    by blast
  from 1 2 3 d show ?thesis by (simp add: store_bytes_def)
qed

end
